theory Spec2Isabelle
  imports Main "HOL-Library.Word"
begin

section \<open>JavaScript values, errors and the object heap\<close>

text \<open>
  A shallow embedding of \<^verbatim>\<open>packages/core/src/entity/Reference.ts\<close>.

  A JavaScript value is a primitive or a pointer to an object. Objects live in a heap,
  a list indexed by address: an object is never freed, \<^verbatim>\<open>new\<close> appends one.
  Whether an object is an entity handle or a \<^verbatim>\<open>Reference\<close> is read from the heap,
  as the source reads it from the \<^verbatim>\<open>__reference\<close> property (duck typing), so a
  \<^verbatim>\<open>Reference\<close> that wraps a \<^verbatim>\<open>Reference\<close> is a state of the model; that it never
  arises is a theorem, not a typing fact.

  Numbers are the integers from \<^verbatim>\<open>-2^53\<close> to \<^verbatim>\<open>2^53 - 1\<close> (identifiers), a signed
  word of 54 bits: each of them is a JavaScript number, and prints in decimal. Fractions,
  larger numbers, \<^verbatim>\<open>NaN\<close> and \<^verbatim>\<open>-0\<close> are not values of the model. A plain
  object, as the helper's \<^verbatim>\<open>getPrimaryKey()\<close> builds one for a composite primary
  key, is a value \<open>VPlain\<close>: the list of its data properties, taken by value. A
  thrown exception is the left summand of a result.
\<close>

type_synonym addr = nat

datatype val = VUndefined | VNull | VBool bool | VNum "54 word" | VStr string | VObj addr
  | VPlain "(string \<times> val) list"

datatype error = TypeError | RangeError | Error string

text \<open>JavaScript's \<^verbatim>\<open>ToBoolean\<close>, as \<^verbatim>\<open>&&\<close>, \<^verbatim>\<open>!!\<close>, \<^verbatim>\<open>?:\<close> and \<^verbatim>\<open>if\<close> apply it.\<close>

fun truthy :: "val \<Rightarrow> bool" where
  "truthy VUndefined = False"
| "truthy VNull = False"
| "truthy (VBool b) = b"
| "truthy (VNum n) = (n \<noteq> 0)"
| "truthy (VStr s) = (s \<noteq> [])"
| "truthy (VObj a) = True"
| "truthy (VPlain ps) = True"

text \<open>
  JavaScript's \<^verbatim>\<open>ToString\<close>, as a template literal and a property key apply it.
  The number that a word \<open>n\<close> stands for is \<open>sint n\<close>; it is below \<^verbatim>\<open>1e21\<close> in
  magnitude, so it prints as its decimal digits, without an exponent. An object
  without a \<^verbatim>\<open>toString\<close> of its own prints as \<^verbatim>\<open>[object Object]\<close>. A plain object
  with a property \<^verbatim>\<open>toString\<close> of its own, which is data and cannot be called, is
  left with \<^verbatim>\<open>Object.prototype.valueOf\<close>, which returns the object: the conversion
  throws. An entity and a wrapper are taken to inherit the \<^verbatim>\<open>toString\<close> of
  \<^verbatim>\<open>Object.prototype\<close>.
\<close>

definition digit_char :: "nat \<Rightarrow> char" where
  "digit_char d = ''0123456789'' ! d"

fun digits :: "nat \<Rightarrow> string" where
  "digits n = (if n < 10 then [digit_char n] else digits (n div 10) @ [digit_char (n mod 10)])"

declare digits.simps [simp del]

fun to_string :: "val \<Rightarrow> error + string" where
  "to_string VUndefined = Inr ''undefined''"
| "to_string VNull = Inr ''null''"
| "to_string (VBool b) = Inr (if b then ''true'' else ''false'')"
| "to_string (VNum n) =
     Inr (if sint n < 0 then CHR ''-'' # digits (nat (- sint n)) else digits (nat (sint n)))"
| "to_string (VStr s) = Inr s"
| "to_string (VObj a) = Inr ''[object Object]''"
| "to_string (VPlain ps) =
     (case map_of ps ''toString'' of None \<Rightarrow> Inr ''[object Object]'' | Some f \<Rightarrow> Inl TypeError)"

text \<open>
  Entity metadata (\<^verbatim>\<open>helper(entity).__meta\<close>): the fields \<^verbatim>\<open>Reference.ts\<close> reads.
\<close>

record meta =
  name :: string
  className :: string
  primaryKeys :: "string list"
  serializedPrimaryKey :: "string option"

text \<open>
  An entity handle: the entity's declared properties, and the state of its helper
  (\<^verbatim>\<open>entity.__helper\<close>): \<^verbatim>\<open>__meta\<close>, \<^verbatim>\<open>__initialized\<close>, \<^verbatim>\<open>__reference\<close> (the
  canonical-reference marker: the cached wrapper, or absent), \<^verbatim>\<open>__loadedProperties\<close>
  and \<^verbatim>\<open>__originalEntityData\<close>.
\<close>

record handle =
  properties :: "(string \<times> val) list"
  h_meta :: meta
  h_initialized :: bool
  h_reference :: "addr option"
  h_loadedProperties :: "string list"
  h_originalEntityData :: "(string \<times> val) list option"

text \<open>
  A \<^verbatim>\<open>Reference\<close> object: its private \<^verbatim>\<open>entity\<close> field and the getters that the
  constructor defines on the instance with \<^verbatim>\<open>Object.defineProperty\<close>.

  A getter is an own property of the instance, so it hides a member of \<^verbatim>\<open>Reference\<close>
  of the same name: the field \<^verbatim>\<open>entity\<close>, or a method or a getter of the prototype.
  The object is \<open>Reference \<rho>\<close> when no getter of it is named like a member, and
  \<open>Shadowed \<rho>\<close> when one is; the constructor decides which. \<open>reference_members\<close>
  are the members that \<^verbatim>\<open>Reference.ts\<close> declares (lines 25 to 163 and 186 to 187).
  The names that begin with two underscores (lines 182 to 185) are the ORM's own
  members of an entity as well (\<^verbatim>\<open>this.entity.__helper\<close>), and \<^verbatim>\<open>__reference\<close> is what
  tells a wrapper from an entity: no entity declares a property of such a name, so
  no getter has one.
\<close>

datatype accessor = PrimaryKeyGetter | SerializedPrimaryKeyGetter

record reference =
  entity :: val
  accessors :: "(string \<times> accessor) list"

datatype obj = Handle handle | Reference reference | Shadowed reference

definition reference_members :: "string list" where
  "reference_members = [''entity'', ''load'', ''set'', ''unwrap'', ''getEntity'', ''getProperty'',
     ''isInitialized'', ''populated'', ''toJSON'', ''$'', ''get'']"

definition shadows :: "(string \<times> accessor) list \<Rightarrow> bool" where
  "shadows acc = list_ex (\<lambda>p. fst p \<in> set reference_members) acc"

type_synonym heap = "obj list"

definition obj_at :: "heap \<Rightarrow> addr \<Rightarrow> obj option" where
  "obj_at h a = (if a < length h then Some (h ! a) else None)"

text \<open>
  \<^verbatim>\<open>this.entity\<close> on a wrapper with a getter named \<^verbatim>\<open>entity\<close>: the getter has replaced
  the field, and its body (line 32, or line 40) reads \<^verbatim>\<open>this.entity\<close> first, which
  calls the getter again: the read never returns, it exhausts the call stack.
\<close>

definition shadowed_entity :: "reference \<Rightarrow> error + val" where
  "shadowed_entity \<sigma> =
     (case map_of (accessors \<sigma>) ''entity'' of None \<Rightarrow> Inr (entity \<sigma>) | Some g \<Rightarrow> Inl RangeError)"

text \<open>
  The program state: the heap, and two counters that only the model writes, one
  per call of the handle's \<^verbatim>\<open>init\<close> delegate and one per call of the Entity
  Factory's \<^verbatim>\<open>createReference\<close>.
\<close>

record state =
  heap :: heap
  init_calls :: nat
  factory_calls :: nat

section \<open>Property reads\<close>

text \<open>
  \<^verbatim>\<open>entity[k]\<close> on a handle, for a declared property name \<open>k\<close>: a property that is
  not there reads as \<^verbatim>\<open>undefined\<close>.
\<close>

definition property :: "handle \<Rightarrow> string \<Rightarrow> val" where
  "property e k = (case map_of (properties e) k of None \<Rightarrow> VUndefined | Some v \<Rightarrow> v)"

text \<open>
  \<^verbatim>\<open>helper(v)\<close> is \<^verbatim>\<open>v.__helper\<close>. On a handle it is the handle's own helper; on a
  \<^verbatim>\<open>Reference\<close> the prototype getter of line 185 forwards to \<^verbatim>\<open>this.entity.__helper\<close>;
  on \<^verbatim>\<open>null\<close> and \<^verbatim>\<open>undefined\<close> the read throws, and on another primitive it gives
  \<^verbatim>\<open>undefined\<close>, on which every use in the source reads a member at once and throws.
  The result is the address of the handle and the handle. The getter recurses
  through nested wrappers; a cycle of wrappers exhausts the fuel, the heap's size,
  as it exhausts the call stack. An address without an object is not a state of a
  JavaScript program; the model gives it \<open>TypeError\<close>.
\<close>

fun helper_fuel :: "nat \<Rightarrow> heap \<Rightarrow> val \<Rightarrow> error + (addr \<times> handle)" where
  "helper_fuel n h (VObj a) =
     (case obj_at h a of
        None \<Rightarrow> Inl TypeError
      | Some (Handle e) \<Rightarrow> Inr (a, e)
      | Some (Reference r) \<Rightarrow>
          (case n of 0 \<Rightarrow> Inl RangeError | Suc m \<Rightarrow> helper_fuel m h (entity r))
      | Some (Shadowed \<sigma>) \<Rightarrow>
          (case shadowed_entity \<sigma> of
             Inl er \<Rightarrow> Inl er
           | Inr v \<Rightarrow> (case n of 0 \<Rightarrow> Inl RangeError | Suc m \<Rightarrow> helper_fuel m h v)))"
| "helper_fuel n h v = Inl TypeError"

definition helper :: "heap \<Rightarrow> val \<Rightarrow> error + (addr \<times> handle)" where
  "helper h v = helper_fuel (length h) h v"

text \<open>
  \<^verbatim>\<open>v[k]\<close> for a declared property name \<open>k\<close>. On a \<^verbatim>\<open>Reference\<close> the name is looked up
  among the getters of the instance: a primary-key getter returns
  \<^verbatim>\<open>this.entity[primaryKey]\<close> (line 32), the serialized-primary-key getter returns
  \<^verbatim>\<open>helper(this.entity).getSerializedPrimaryKey()\<close> (line 40). The helper's
  \<^verbatim>\<open>getSerializedPrimaryKey\<close> is not part of this file: it is the parameter \<open>gspk\<close>.
  On a plain object the name is looked up among its properties.
\<close>

fun get_fuel :: "(handle \<Rightarrow> val) \<Rightarrow> nat \<Rightarrow> heap \<Rightarrow> val \<Rightarrow> string \<Rightarrow> error + val" where
  "get_fuel gspk n h (VObj a) k =
     (case obj_at h a of
        None \<Rightarrow> Inl TypeError
      | Some (Handle e) \<Rightarrow> Inr (property e k)
      | Some (Reference r) \<Rightarrow>
          (case map_of (accessors r) k of
             None \<Rightarrow> Inr VUndefined
           | Some PrimaryKeyGetter \<Rightarrow>
               (case n of 0 \<Rightarrow> Inl RangeError | Suc m \<Rightarrow> get_fuel gspk m h (entity r) k)
           | Some SerializedPrimaryKeyGetter \<Rightarrow>
               (case helper h (entity r) of
                  Inl er \<Rightarrow> Inl er
                | Inr (b, e) \<Rightarrow> Inr (gspk e)))
      | Some (Shadowed \<sigma>) \<Rightarrow>
          (case map_of (accessors \<sigma>) k of
             None \<Rightarrow> Inr VUndefined
           | Some PrimaryKeyGetter \<Rightarrow>
               (case shadowed_entity \<sigma> of
                  Inl er \<Rightarrow> Inl er
                | Inr v \<Rightarrow> (case n of 0 \<Rightarrow> Inl RangeError | Suc m \<Rightarrow> get_fuel gspk m h v k))
           | Some SerializedPrimaryKeyGetter \<Rightarrow>
               (case shadowed_entity \<sigma> of
                  Inl er \<Rightarrow> Inl er
                | Inr v \<Rightarrow>
                    (case helper h v of
                       Inl er \<Rightarrow> Inl er
                     | Inr (b, e) \<Rightarrow> Inr (gspk e)))))"
| "get_fuel gspk n h VUndefined k = Inl TypeError"
| "get_fuel gspk n h VNull k = Inl TypeError"
| "get_fuel gspk n h (VPlain ps) k = Inr (case map_of ps k of None \<Rightarrow> VUndefined | Some v \<Rightarrow> v)"
| "get_fuel gspk n h v k = Inr VUndefined"

definition get :: "(handle \<Rightarrow> val) \<Rightarrow> heap \<Rightarrow> val \<Rightarrow> string \<Rightarrow> error + val" where
  "get gspk h v k = get_fuel gspk (length h) h v k"

section \<open>The static predicates and \<^verbatim>\<open>unwrap\<close>\<close>

text \<open>
  \<^verbatim>\<open>data.__reference\<close>: \<^verbatim>\<open>Reference.prototype\<close> defines it as \<^verbatim>\<open>true\<close> (line 182); a
  handle and a primitive have no such property; a plain object has it when it is
  among its properties; reading it on \<^verbatim>\<open>null\<close> or \<^verbatim>\<open>undefined\<close> throws.
\<close>

fun reference_marker :: "heap \<Rightarrow> val \<Rightarrow> error + val" where
  "reference_marker h VUndefined = Inl TypeError"
| "reference_marker h VNull = Inl TypeError"
| "reference_marker h (VObj a) =
     (case obj_at h a of
        Some (Reference r) \<Rightarrow> Inr (VBool True)
      | Some (Shadowed \<sigma>) \<Rightarrow> Inr (VBool True)
      | _ \<Rightarrow> Inr VUndefined)"
| "reference_marker h (VPlain ps) =
     Inr (case map_of ps ''__reference'' of None \<Rightarrow> VUndefined | Some v \<Rightarrow> v)"
| "reference_marker h v = Inr VUndefined"

text \<open>
  \<^verbatim>\<open>return data && !!data.__reference;\<close> (line 81). JavaScript's \<^verbatim>\<open>&&\<close> returns its
  left operand when that is falsy, and evaluates the right operand only otherwise.
\<close>

definition isReference :: "heap \<Rightarrow> val \<Rightarrow> error + val" where
  "isReference h data =
     (if truthy data
      then (case reference_marker h data of Inl e \<Rightarrow> Inl e | Inr m \<Rightarrow> Inr (VBool (truthy m)))
      else Inr data)"

text \<open>
  The methods of \<^verbatim>\<open>Reference\<close> are modelled by their bodies, run on the object at
  \<open>r\<close>. \<^verbatim>\<open>unwrap()\<close> (line 137) is \<^verbatim>\<open>return this.entity\<close>; the other methods read
  \<^verbatim>\<open>this.entity\<close> by it.
\<close>

definition unwrap :: "heap \<Rightarrow> addr \<Rightarrow> error + val" where
  "unwrap h r =
     (case obj_at h r of
        Some (Reference \<rho>) \<Rightarrow> Inr (entity \<rho>)
      | Some (Shadowed \<sigma>) \<Rightarrow> shadowed_entity \<sigma>
      | _ \<Rightarrow> Inl TypeError)"

text \<open>
  A call \<^verbatim>\<open>v.m(...)\<close> in the source looks the member \<open>m\<close> up on \<open>v\<close> first: \<open>member_method\<close>
  returns when that is the method of \<^verbatim>\<open>Reference.prototype\<close>, and the body then runs
  on \<open>v\<close>. On a wrapper with a getter named \<open>m\<close> the member is what the getter
  returns. The primary-key getter returns \<^verbatim>\<open>this.entity[m]\<close>: the method again when
  \<^verbatim>\<open>this.entity\<close> is a wrapper that has it, and otherwise a property of an entity or
  \<^verbatim>\<open>undefined\<close>, which cannot be called. The serialized-primary-key getter
  returns a string. A value that is not a wrapper has no such method.
\<close>

fun member_method_fuel :: "nat \<Rightarrow> heap \<Rightarrow> val \<Rightarrow> string \<Rightarrow> error + unit" where
  "member_method_fuel n h (VObj a) m =
     (case obj_at h a of
        Some (Reference \<rho>) \<Rightarrow> Inr ()
      | Some (Shadowed \<sigma>) \<Rightarrow>
          (case map_of (accessors \<sigma>) m of
             None \<Rightarrow> Inr ()
           | Some PrimaryKeyGetter \<Rightarrow>
               (case shadowed_entity \<sigma> of
                  Inl er \<Rightarrow> Inl er
                | Inr v \<Rightarrow> (case n of 0 \<Rightarrow> Inl RangeError | Suc k \<Rightarrow> member_method_fuel k h v m))
           | Some SerializedPrimaryKeyGetter \<Rightarrow>
               (case shadowed_entity \<sigma> of
                  Inl er \<Rightarrow> Inl er
                | Inr v \<Rightarrow>
                    (case helper h v of
                       Inl er \<Rightarrow> Inl er
                     | Inr p \<Rightarrow> Inl TypeError)))
      | _ \<Rightarrow> Inl TypeError)"
| "member_method_fuel n h v m = Inl TypeError"

definition member_method :: "heap \<Rightarrow> val \<Rightarrow> string \<Rightarrow> error + unit" where
  "member_method h v m = member_method_fuel (length h) h v m"

text \<open>\<^verbatim>\<open>return Reference.isReference(ref) ? ref.unwrap() : ref;\<close> (line 99).\<close>

definition unwrapReference :: "heap \<Rightarrow> val \<Rightarrow> error + val" where
  "unwrapReference h ref =
     (case isReference h ref of
        Inl e \<Rightarrow> Inl e
      | Inr t \<Rightarrow>
          if truthy t
          then (case member_method h ref ''unwrap'' of
                  Inl e \<Rightarrow> Inl e
                | Inr u \<Rightarrow> (case ref of VObj a \<Rightarrow> unwrap h a | _ \<Rightarrow> Inl TypeError))
          else Inr ref)"

text \<open>\<^verbatim>\<open>isInitialized()\<close> (line 153): \<^verbatim>\<open>helper(this.entity).__initialized\<close>.\<close>

definition isInitialized :: "heap \<Rightarrow> addr \<Rightarrow> error + bool" where
  "isInitialized h r =
     (case unwrap h r of
        Inl e \<Rightarrow> Inl e
      | Inr this_entity \<Rightarrow>
          (case helper h this_entity of
             Inl e \<Rightarrow> Inl e
           | Inr (b, e) \<Rightarrow> Inr (h_initialized e)))"

section \<open>Re-pointing and construction\<close>

text \<open>
  \<^verbatim>\<open>set(entity)\<close> (lines 132 to 135), called on the \<^verbatim>\<open>Reference\<close> at \<open>r\<close>:
  \<^verbatim>\<open>this.entity = Reference.unwrapReference(entity);\<close> then
  \<^verbatim>\<open>delete helper(this.entity).__reference;\<close>. The assignment stands when the second
  statement throws. On a wrapper with a getter named \<^verbatim>\<open>entity\<close> the assignment
  throws: the property has a getter and no setter, and the body of a class is strict
  code.
\<close>

definition set_reference :: "state \<Rightarrow> addr \<Rightarrow> val \<Rightarrow> (error + unit) \<times> state" where
  "set_reference s r v =
     (case obj_at (heap s) r of
        Some (Reference \<rho>) \<Rightarrow>
          (case unwrapReference (heap s) v of
             Inl er \<Rightarrow> (Inl er, s)
           | Inr u \<Rightarrow>
               let s1 = s\<lparr>heap := (heap s)[r := Reference (\<rho>\<lparr>entity := u\<rparr>)]\<rparr> in
               (case helper (heap s1) u of
                  Inl er \<Rightarrow> (Inl er, s1)
                | Inr (b, e) \<Rightarrow>
                    (Inr (), s1\<lparr>heap := (heap s1)[b := Handle (e\<lparr>h_reference := None\<rparr>)]\<rparr>)))
      | Some (Shadowed \<sigma>) \<Rightarrow>
          (case unwrapReference (heap s) v of
             Inl er \<Rightarrow> (Inl er, s)
           | Inr u \<Rightarrow>
               (case map_of (accessors \<sigma>) ''entity'' of
                  Some g \<Rightarrow> (Inl TypeError, s)
                | None \<Rightarrow>
                    let s1 = s\<lparr>heap := (heap s)[r := Shadowed (\<sigma>\<lparr>entity := u\<rparr>)]\<rparr> in
                    (case helper (heap s1) u of
                       Inl er \<Rightarrow> (Inl er, s1)
                     | Inr (b, e) \<Rightarrow>
                         (Inr (), s1\<lparr>heap := (heap s1)[b := Handle (e\<lparr>h_reference := None\<rparr>)]\<rparr>))))
      | _ \<Rightarrow> (Inl TypeError, s))"

text \<open>
  \<^verbatim>\<open>Object.defineProperty(this, k, { get() {...} })\<close>: the property is created not
  configurable, so defining a name a second time throws. The name \<^verbatim>\<open>entity\<close> is the
  exception: the instance has that property already, from the parameter property of
  line 25, and it is configurable and stays so; defining it replaces what is there,
  the field or an earlier getter.
\<close>

definition defineProperty ::
  "(string \<times> accessor) list \<Rightarrow> string \<Rightarrow> accessor \<Rightarrow> error + (string \<times> accessor) list" where
  "defineProperty acc k g =
     (if k = ''entity'' then Inr (filter (\<lambda>p. fst p \<noteq> k) acc @ [(k, g)])
      else if k \<in> fst ` set acc then Inl TypeError
      else Inr (acc @ [(k, g)]))"

text \<open>\<^verbatim>\<open>meta.primaryKeys.forEach(primaryKey => Object.defineProperty(...))\<close> (lines 29 to 35).\<close>

fun define_primary_keys ::
  "(string \<times> accessor) list \<Rightarrow> string list \<Rightarrow> error + (string \<times> accessor) list" where
  "define_primary_keys acc [] = Inr acc"
| "define_primary_keys acc (k # ks) =
     (case defineProperty acc k PrimaryKeyGetter of
        Inl er \<Rightarrow> Inl er
      | Inr acc' \<Rightarrow> define_primary_keys acc' ks)"

text \<open>
  Lines 37 to 43: the getter of the serialized primary key, defined when
  \<^verbatim>\<open>meta.serializedPrimaryKey\<close> is truthy and differs from \<^verbatim>\<open>meta.primaryKeys[0]\<close>
  (which is \<^verbatim>\<open>undefined\<close> for an empty list).
\<close>

definition define_serialized_primary_key ::
  "meta \<Rightarrow> (string \<times> accessor) list \<Rightarrow> error + (string \<times> accessor) list" where
  "define_serialized_primary_key m acc =
     (case serializedPrimaryKey m of
        None \<Rightarrow> Inr acc
      | Some spk \<Rightarrow>
          if spk \<noteq> [] \<and> (case primaryKeys m of [] \<Rightarrow> True | p # ps \<Rightarrow> p \<noteq> spk)
          then defineProperty acc spk SerializedPrimaryKeyGetter
          else Inr acc)"

text \<open>
  \<^verbatim>\<open>new Reference(entity)\<close> (lines 25 to 44). The parameter property stores
  \<open>entity\<close> in the new object, allocated at the end of the heap; then
  \<^verbatim>\<open>this.set(entity)\<close>, \<^verbatim>\<open>helper(this.entity).__meta\<close> and the getters. No getter is
  read before the constructor returns. When a getter is named like a member of
  \<^verbatim>\<open>Reference\<close> the object that the constructor returns is \<open>Shadowed\<close>.
\<close>

definition new_Reference :: "state \<Rightarrow> val \<Rightarrow> (error + addr) \<times> state" where
  "new_Reference s v =
     (let r = length (heap s);
          s0 = s\<lparr>heap := heap s @ [Reference \<lparr>entity = v, accessors = []\<rparr>]\<rparr>
      in case set_reference s0 r v of
           (Inl er, s1) \<Rightarrow> (Inl er, s1)
         | (Inr u, s1) \<Rightarrow>
             (case unwrap (heap s1) r of
                Inl er \<Rightarrow> (Inl er, s1)
              | Inr this_entity \<Rightarrow>
                  (case helper (heap s1) this_entity of
                     Inl er \<Rightarrow> (Inl er, s1)
                   | Inr (b, e) \<Rightarrow>
                       (case define_primary_keys [] (primaryKeys (h_meta e)) of
                          Inl er \<Rightarrow> (Inl er, s1)
                        | Inr acc \<Rightarrow>
                            (case define_serialized_primary_key (h_meta e) acc of
                               Inl er \<Rightarrow> (Inl er, s1)
                             | Inr acc' \<Rightarrow>
                                 let \<rho> = \<lparr>entity = this_entity, accessors = acc'\<rparr> in
                                 (Inr r, s1\<lparr>heap := (heap s1)
                                    [r := (if shadows acc' then Shadowed \<rho> else Reference \<rho>)]\<rparr>))))))"

text \<open>
  Modelled from the spec: \<^verbatim>\<open>toReference()\<close> of the handle's helper, which is not
  part of this file. By section 6 it returns or creates the canonical \<^verbatim>\<open>Reference\<close>
  of the handle, the same instance for the same handle until the handle is
  re-pointed, and the handle carries a reference marker that can be set and
  cleared. The marker is the helper's \<^verbatim>\<open>__reference\<close>, the property that \<^verbatim>\<open>set\<close>
  deletes: when it is present it is the canonical wrapper and is returned;
  otherwise a wrapper is constructed around the handle and stored as the marker.
\<close>

definition toReference :: "state \<Rightarrow> addr \<Rightarrow> (error + addr) \<times> state" where
  "toReference s b =
     (case obj_at (heap s) b of
        Some (Handle e) \<Rightarrow>
          (case h_reference e of
             Some r \<Rightarrow> (Inr r, s)
           | None \<Rightarrow>
               (case new_Reference s (VObj b) of
                  (Inl er, s1) \<Rightarrow> (Inl er, s1)
                | (Inr r, s1) \<Rightarrow>
                    (case obj_at (heap s1) b of
                       Some (Handle e1) \<Rightarrow>
                         (Inr r, s1\<lparr>heap := (heap s1)[b := Handle (e1\<lparr>h_reference := Some r\<rparr>)]\<rparr>)
                     | _ \<Rightarrow> (Inl TypeError, s1))))
      | _ \<Rightarrow> (Inl TypeError, s))"

text \<open>
  \<^verbatim>\<open>Reference.create(entity)\<close> (lines 46 to 55). \<^verbatim>\<open>!==\<close> compares objects by
  identity, here by address.
\<close>

definition create :: "state \<Rightarrow> val \<Rightarrow> (error + val) \<times> state" where
  "create s v =
     (case unwrapReference (heap s) v of
        Inl er \<Rightarrow> (Inl er, s)
      | Inr unwrapped \<Rightarrow>
          (case helper (heap s) v of
             Inl er \<Rightarrow> (Inl er, s)
           | Inr (b, e) \<Rightarrow>
               (case toReference s b of
                  (Inl er, s1) \<Rightarrow> (Inl er, s1)
                | (Inr ref, s1) \<Rightarrow>
                    (case member_method (heap s1) (VObj ref) ''unwrap'' of
                       Inl er \<Rightarrow> (Inl er, s1)
                     | Inr m \<Rightarrow>
                         (case unwrap (heap s1) ref of
                            Inl er \<Rightarrow> (Inl er, s1)
                          | Inr u \<Rightarrow>
                              if unwrapped \<noteq> u
                              then (case member_method (heap s1) (VObj ref) ''set'' of
                                      Inl er \<Rightarrow> (Inl er, s1)
                                    | Inr m' \<Rightarrow>
                                        (case set_reference s1 ref unwrapped of
                                           (Inl er, s2) \<Rightarrow> (Inl er, s2)
                                         | (Inr x, s2) \<Rightarrow> (Inr (VObj ref), s2)))
                              else (Inr (VObj ref), s1))))))"

section \<open>Synchronous accessors\<close>


text \<open>
  \<^verbatim>\<open>getEntity()\<close> (lines 141 to 147). The helper's \<^verbatim>\<open>getPrimaryKey\<close> is not part of
  this file: it is the parameter \<open>gpk\<close>. The template literal of line 143 converts
  its result to a string.
\<close>

definition not_initialized_message :: "string \<Rightarrow> val \<Rightarrow> error + string" where
  "not_initialized_message nm pk =
     (case to_string pk of
        Inl er \<Rightarrow> Inl er
      | Inr p \<Rightarrow> Inr (''Reference<'' @ nm @ ''> '' @ p @ '' not initialized''))"

definition getEntity :: "(handle \<Rightarrow> val) \<Rightarrow> heap \<Rightarrow> addr \<Rightarrow> error + val" where
  "getEntity gpk h r =
     (case member_method h (VObj r) ''isInitialized'' of
        Inl er \<Rightarrow> Inl er
      | Inr m \<Rightarrow>
          (case isInitialized h r of
             Inl er \<Rightarrow> Inl er
           | Inr initialized \<Rightarrow>
               if \<not> initialized
               then (case unwrap h r of
                       Inl er \<Rightarrow> Inl er
                     | Inr this_entity \<Rightarrow>
                         (case helper h this_entity of
                            Inl er \<Rightarrow> Inl er
                          | Inr (b, e) \<Rightarrow>
                              (case not_initialized_message (name (h_meta e)) (gpk e) of
                                 Inl er \<Rightarrow> Inl er
                               | Inr message \<Rightarrow> Inl (Error message))))
               else unwrap h r))"

text \<open>\<^verbatim>\<open>getProperty(prop)\<close> (line 149): \<^verbatim>\<open>this.getEntity()[prop]\<close>.\<close>

definition getProperty ::
  "(handle \<Rightarrow> val) \<Rightarrow> (handle \<Rightarrow> val) \<Rightarrow> heap \<Rightarrow> addr \<Rightarrow> string \<Rightarrow> error + val" where
  "getProperty gpk gspk h r k =
     (case member_method h (VObj r) ''getEntity'' of
        Inl er \<Rightarrow> Inl er
      | Inr m \<Rightarrow> (case getEntity gpk h r of Inl er \<Rightarrow> Inl er | Inr e \<Rightarrow> get gspk h e k))"





section \<open>Lazy materialization\<close>

text \<open>
  The argument of \<^verbatim>\<open>load\<close>: nothing, a property key, or a \<^verbatim>\<open>LoadReferenceOptions\<close>
  object (lines 190 to 194). Line 119 turns it into the dictionary \<open>opts\<close>:
  \<^verbatim>\<open>typeof options === 'object' ? options : { prop: options }\<close>.
\<close>

record load_options =
  populate :: val
  lockMode :: val
  connectionType :: val

record options_dictionary = load_options +
  opts_prop :: val

datatype load_arg = NoArgument | PropertyKey string | Options load_options

fun opts_of :: "load_arg \<Rightarrow> options_dictionary" where
  "opts_of (Options ob) =
     \<lparr>populate = populate ob, lockMode = lockMode ob, connectionType = connectionType ob,
      opts_prop = VUndefined\<rparr>"
| "opts_of (PropertyKey k) =
     \<lparr>populate = VUndefined, lockMode = VUndefined, connectionType = VUndefined, opts_prop = VStr k\<rparr>"
| "opts_of NoArgument =
     \<lparr>populate = VUndefined, lockMode = VUndefined, connectionType = VUndefined,
      opts_prop = VUndefined\<rparr>"

text \<open>
  The helper's \<^verbatim>\<open>init\<close> is not part of this file: it is the parameter \<open>ini\<close>, called
  with the handle's address and the argument list, which resolves or rejects and
  may rewrite the heap. The suspension of \<^verbatim>\<open>await\<close> is the call; each call is
  counted in \<open>init_calls\<close>.
\<close>

type_synonym init_delegate = "heap \<Rightarrow> addr \<Rightarrow> val list \<Rightarrow> (error + unit) \<times> heap"

text \<open>
  \<^verbatim>\<open>await helper(this.entity).init(undefined, opts?.populate, opts?.lockMode,
  opts?.connectionType)\<close> (line 122).
\<close>

definition call_init :: "init_delegate \<Rightarrow> state \<Rightarrow> addr \<Rightarrow> options_dictionary \<Rightarrow> (error + unit) \<times> state" where
  "call_init ini s r os =
     (case unwrap (heap s) r of
        Inl er \<Rightarrow> (Inl er, s)
      | Inr this_entity \<Rightarrow>
          (case helper (heap s) this_entity of
             Inl er \<Rightarrow> (Inl er, s)
           | Inr (b, e) \<Rightarrow>
               (case ini (heap s) b [VUndefined, populate os, lockMode os, connectionType os] of
                  (res, h1) \<Rightarrow> (res, s\<lparr>heap := h1, init_calls := Suc (init_calls s)\<rparr>))))"

text \<open>
  \<^verbatim>\<open>load(options)\<close> (lines 118 to 130). A rejected promise is the left summand.
  \<^verbatim>\<open>this.entity\<close> is read again after the \<^verbatim>\<open>await\<close>, from the state the delegate left.
  \<^verbatim>\<open>this.entity[opts.prop]\<close> converts \<^verbatim>\<open>opts.prop\<close> to a property key.
\<close>

definition load ::
  "init_delegate \<Rightarrow> (handle \<Rightarrow> val) \<Rightarrow> state \<Rightarrow> addr \<Rightarrow> load_arg \<Rightarrow> (error + val) \<times> state" where
  "load ini gspk s r options =
     (let os = opts_of options in
      case member_method (heap s) (VObj r) ''isInitialized'' of
        Inl er \<Rightarrow> (Inl er, s)
      | Inr m \<Rightarrow>
          (case isInitialized (heap s) r of
             Inl er \<Rightarrow> (Inl er, s)
           | Inr initialized \<Rightarrow>
               (case (if \<not> initialized then call_init ini s r os else (Inr (), s)) of
                  (Inl er, s1) \<Rightarrow> (Inl er, s1)
                | (Inr u, s1) \<Rightarrow>
                    (case unwrap (heap s1) r of
                       Inl er \<Rightarrow> (Inl er, s1)
                     | Inr this_entity \<Rightarrow>
                         if truthy (opts_prop os)
                         then (case to_string (opts_prop os) of
                                 Inl er \<Rightarrow> (Inl er, s1)
                               | Inr k \<Rightarrow> (get gspk (heap s1) this_entity k, s1))
                         else (Inr this_entity, s1)))))"

section \<open>Construction from a primary key\<close>

text \<open>
  The Entity Factory is not part of this file: \<open>createReference\<close> and
  \<^verbatim>\<open>getComparator().prepareEntity\<close> are the fields of a parameter. Each call of
  \<open>createReference\<close> is counted in \<open>factory_calls\<close>.
\<close>

record factory_options =
  merge :: bool
  convertCustomTypes :: bool
  schema :: "string option"

record entity_factory =
  createReference :: "heap \<Rightarrow> string \<Rightarrow> val \<Rightarrow> factory_options \<Rightarrow> (error + val) \<times> heap"
  prepareEntity :: "heap \<Rightarrow> val \<Rightarrow> (string \<times> val) list"

text \<open>\<^verbatim>\<open>Set.prototype.add\<close> on \<^verbatim>\<open>__loadedProperties\<close>.\<close>

definition add :: "string \<Rightarrow> string list \<Rightarrow> string list" where
  "add k ks = (if k \<in> set ks then ks else ks @ [k])"

text \<open>
  \<^verbatim>\<open>Reference.createNakedFromPK(entityType, pk, options)\<close> (lines 62 to 75); \<open>F\<close> is
  \<^verbatim>\<open>entityType.prototype.__factory\<close>, \<open>sch\<close> the schema of \<open>options\<close>.
\<close>

definition createNakedFromPK ::
  "entity_factory \<Rightarrow> state \<Rightarrow> string \<Rightarrow> val \<Rightarrow> string option \<Rightarrow> (error + val) \<times> state" where
  "createNakedFromPK F s entityType pk sch =
     (case createReference F (heap s) entityType pk
             \<lparr>merge = False, convertCustomTypes = False, schema = sch\<rparr> of
        (res, h1) \<Rightarrow>
          let s1 = s\<lparr>heap := h1, factory_calls := Suc (factory_calls s)\<rparr> in
          (case res of
             Inl er \<Rightarrow> (Inl er, s1)
           | Inr ent \<Rightarrow>
               (case helper h1 ent of
                  Inl er \<Rightarrow> (Inl er, s1)
                | Inr (b, e) \<Rightarrow>
                    let e1 = e\<lparr>h_loadedProperties :=
                                 fold add (primaryKeys (h_meta e)) (h_loadedProperties e)\<rparr>;
                        h2 = h1[b := Handle e1];
                        e2 = e1\<lparr>h_originalEntityData := Some (prepareEntity F h2 ent)\<rparr>
                    in (Inr ent, s1\<lparr>heap := h2[b := Handle e2]\<rparr>))))"

text \<open>
  Modelled from the spec: \<^verbatim>\<open>Utils.isEntity\<close>, which is not part of this file:
  whether the value is a persisted entity, that is, an object that is an entity
  handle (section 2: an Entity Handle is "a persisted-object instance plus an
  attached mutable helper state"). A \<^verbatim>\<open>Reference\<close> and a primitive are not.
\<close>

definition isEntity :: "heap \<Rightarrow> val \<Rightarrow> bool" where
  "isEntity h v = (case v of VObj a \<Rightarrow> (case obj_at h a of Some (Handle e) \<Rightarrow> True | _ \<Rightarrow> False) | _ \<Rightarrow> False)"

text \<open>
  \<^verbatim>\<open>rel(entityType, pk)\<close> (lines 237 to 243). \<^verbatim>\<open>pk == null\<close> holds of \<^verbatim>\<open>null\<close> and
  \<^verbatim>\<open>undefined\<close> only.
\<close>

definition rel :: "entity_factory \<Rightarrow> state \<Rightarrow> string \<Rightarrow> val \<Rightarrow> (error + val) \<times> state" where
  "rel F s entityType pk =
     (if pk = VNull \<or> pk = VUndefined \<or> isEntity (heap s) pk
      then (Inr pk, s)
      else createNakedFromPK F s entityType pk None)"

section \<open>The invariant of the heap\<close>

text \<open>
  Every \<^verbatim>\<open>Reference\<close> wraps an entity handle, never a \<^verbatim>\<open>Reference\<close> or a primitive, and
  every canonical-reference marker points at a \<^verbatim>\<open>Reference\<close> none of whose members is
  hidden by a getter.
\<close>

definition is_handle :: "heap \<Rightarrow> addr \<Rightarrow> bool" where
  "is_handle h a = (case obj_at h a of Some (Handle e) \<Rightarrow> True | _ \<Rightarrow> False)"

definition is_reference :: "heap \<Rightarrow> addr \<Rightarrow> bool" where
  "is_reference h a = (case obj_at h a of Some (Reference \<rho>) \<Rightarrow> True | _ \<Rightarrow> False)"

fun obj_ok :: "heap \<Rightarrow> obj \<Rightarrow> bool" where
  "obj_ok h (Handle e) = (case h_reference e of None \<Rightarrow> True | Some r \<Rightarrow> is_reference h r)"
| "obj_ok h (Reference \<rho>) = (case entity \<rho> of VObj b \<Rightarrow> is_handle h b | _ \<Rightarrow> False)"
| "obj_ok h (Shadowed \<sigma>) = (case entity \<sigma> of VObj b \<Rightarrow> is_handle h b | _ \<Rightarrow> False)"

definition wf :: "heap \<Rightarrow> bool" where
  "wf h = list_all (obj_ok h) h"

text \<open>
  Metadata on which the constructor's \<^verbatim>\<open>Object.defineProperty\<close> calls do not throw
  and hide no member of \<^verbatim>\<open>Reference\<close>: the primary keys are distinct, a serialized
  primary key is not one of the primary keys after the first, and none of them is
  named like a member.
\<close>

definition meta_ok :: "meta \<Rightarrow> bool" where
  "meta_ok m =
     (distinct (primaryKeys m) \<and> set (primaryKeys m) \<inter> set reference_members = {} \<and>
      (case serializedPrimaryKey m of
         None \<Rightarrow> True
       | Some spk \<Rightarrow> spk \<notin> set (tl (primaryKeys m)) \<and> spk \<notin> set reference_members))"

section \<open>Example data\<close>

text \<open>
  The scenario of the specification: the entity type \<^verbatim>\<open>Author\<close> with the primary key
  \<^verbatim>\<open>id\<close>; a handle of it, and a wrapper of a handle as the constructor builds it.
\<close>

definition author_meta :: meta where
  "author_meta = \<lparr>name = ''Author'', className = ''Author'', primaryKeys = [''id''],
     serializedPrimaryKey = None\<rparr>"

definition author :: "54 word \<Rightarrow> bool \<Rightarrow> addr option \<Rightarrow> handle" where
  "author i ini m = \<lparr>properties = [(''id'', VNum i)], h_meta = author_meta, h_initialized = ini,
     h_reference = m, h_loadedProperties = [''id''], h_originalEntityData = None\<rparr>"

definition id_ref :: "addr \<Rightarrow> reference" where
  "id_ref b = \<lparr>entity = VObj b, accessors = [(''id'', PrimaryKeyGetter)]\<rparr>"

definition state_of :: "heap \<Rightarrow> state" where
  "state_of h = \<lparr>heap = h, init_calls = 0, factory_calls = 0\<rparr>"

text \<open>The helper's primary key of an author: its \<^verbatim>\<open>id\<close>.\<close>

definition author_pk :: "handle \<Rightarrow> val" where
  "author_pk e = property e ''id''"


text \<open>
  An Entity Factory for the examples: \<open>createReference\<close> allocates a skeletal,
  uninitialized author with the given identifier; \<open>prepareEntity\<close> snapshots the
  properties.
\<close>

definition author_factory :: entity_factory where
  "author_factory = \<lparr>
     createReference = (\<lambda>h ty pk os. (Inr (VObj (length h)),
        h @ [Handle \<lparr>properties = [(''id'', pk)], h_meta = author_meta, h_initialized = False,
               h_reference = None, h_loadedProperties = [], h_originalEntityData = None\<rparr>])),
     prepareEntity = (\<lambda>h v. case helper h v of Inl er \<Rightarrow> [] | Inr (b, e) \<Rightarrow> properties e)\<rparr>"

text \<open>
  Two authors, each with its canonical wrapper: an uninitialized one at address 0,
  wrapped at 1, and an initialized one at 2, wrapped at 3.
\<close>

definition heap4 :: heap where
  "heap4 = [Handle (author 7 False (Some 1)), Reference (id_ref 0),
            Handle (author 8 True (Some 3)), Reference (id_ref 2)]"

text \<open>\<open>heap4\<close> after the wrapper at 1 is re-pointed to the author at 2.\<close>

definition heap4_repointed :: heap where
  "heap4_repointed = [Handle (author 7 False (Some 1)), Reference (id_ref 2),
                      Handle (author 8 True None), Reference (id_ref 2)]"

text \<open>
  An \<^verbatim>\<open>init\<close> delegate for the examples: it loads the name of the author and marks
  the handle initialized; it rejects when there is no handle.
\<close>

definition fetch_author :: init_delegate where
  "fetch_author h b args =
     (case obj_at h b of
        Some (Handle e) \<Rightarrow>
          (Inr (), h[b := Handle (e\<lparr>properties := properties e @ [(''name'', VStr ''Ann'')],
                                     h_initialized := True\<rparr>)])
      | _ \<Rightarrow> (Inl (Error ''not found''), h))"

text \<open>The author at 0 of \<open>heap4\<close> as \<open>fetch_author\<close> materializes it, and the heap then.\<close>

definition ann :: handle where
  "ann = (author 7 True (Some 1))\<lparr>properties := [(''id'', VNum 7), (''name'', VStr ''Ann'')]\<rparr>"

definition heap4_loaded :: heap where
  "heap4_loaded = [Handle ann, Reference (id_ref 0),
                   Handle (author 8 True (Some 3)), Reference (id_ref 2)]"

text \<open>
  An initialized entity that has a property named by the empty string, and its
  wrapper.
\<close>

definition tag :: handle where
  "tag = \<lparr>properties = [(''id'', VNum 1), ([], VNum 5)],
          h_meta = \<lparr>name = ''Tag'', className = ''Tag'', primaryKeys = [''id''],
                    serializedPrimaryKey = None\<rparr>,
          h_initialized = True, h_reference = Some 1, h_loadedProperties = [''id'', []],
          h_originalEntityData = None\<rparr>"

definition tag_heap :: heap where
  "tag_heap = [Handle tag, Reference (id_ref 0)]"

text \<open>
  \<open>heap4_repointed\<close> after \<^verbatim>\<open>create\<close> on the author at 0 has re-pointed the wrapper at 1
  back to it, and then after a second \<^verbatim>\<open>create\<close> has built a new canonical wrapper at 4.
\<close>

definition heap4_claimed :: heap where
  "heap4_claimed = [Handle (author 7 False None), Reference (id_ref 0),
                    Handle (author 8 True None), Reference (id_ref 2)]"

definition heap5 :: heap where
  "heap5 = [Handle (author 7 False (Some 4)), Reference (id_ref 0),
            Handle (author 8 True None), Reference (id_ref 2), Reference (id_ref 0)]"

text \<open>The skeletal author that \<open>author_factory\<close> and \<^verbatim>\<open>createNakedFromPK\<close> build for the identifier 8.\<close>

definition skeleton8 :: handle where
  "skeleton8 = (author 8 False None)\<lparr>h_originalEntityData := Some [(''id'', VNum 8)]\<rparr>"

text \<open>
  An entity type \<^verbatim>\<open>Link\<close> whose primary key is the property \<open>k\<close>; a handle of it,
  with the marker \<open>m\<close>, and its wrapper as the constructor builds it when \<open>k\<close> is
  the name of a member of \<^verbatim>\<open>Reference\<close>. For \<open>link\<close> the primary key is named
  \<^verbatim>\<open>entity\<close>, like the private field of \<^verbatim>\<open>Reference\<close>: a link to an entity of
  another table.
\<close>

definition keyed_meta :: "string \<Rightarrow> meta" where
  "keyed_meta k = \<lparr>name = ''Link'', className = ''Link'', primaryKeys = [k],
     serializedPrimaryKey = None\<rparr>"

definition keyed :: "string \<Rightarrow> addr option \<Rightarrow> handle" where
  "keyed k m = \<lparr>properties = [(k, VNum 7)], h_meta = keyed_meta k, h_initialized = True,
     h_reference = m, h_loadedProperties = [k], h_originalEntityData = None\<rparr>"

definition keyed_ref :: "string \<Rightarrow> reference" where
  "keyed_ref k = \<lparr>entity = VObj 0, accessors = [(k, PrimaryKeyGetter)]\<rparr>"

definition link :: "addr option \<Rightarrow> handle" where
  "link m = keyed ''entity'' m"

definition link_ref :: reference where
  "link_ref = keyed_ref ''entity''"

text \<open>
  An entity type with a composite primary key, the pair of an order and a product;
  an uninitialized handle of it and its wrapper. The helper's primary key of such an
  entity is a plain object of its primary-key properties.
\<close>

definition order_line_meta :: meta where
  "order_line_meta = \<lparr>name = ''OrderLine'', className = ''OrderLine'',
     primaryKeys = [''order'', ''product''], serializedPrimaryKey = None\<rparr>"

definition order_line :: "54 word \<Rightarrow> 54 word \<Rightarrow> handle" where
  "order_line i j = \<lparr>properties = [(''order'', VNum i), (''product'', VNum j)],
     h_meta = order_line_meta, h_initialized = False, h_reference = Some 1,
     h_loadedProperties = [''order'', ''product''], h_originalEntityData = None\<rparr>"

definition order_line_ref :: reference where
  "order_line_ref = \<lparr>entity = VObj 0,
     accessors = [(''order'', PrimaryKeyGetter), (''product'', PrimaryKeyGetter)]\<rparr>"

definition composite_pk :: "handle \<Rightarrow> val" where
  "composite_pk e = VPlain (map (\<lambda>k. (k, property e k)) (primaryKeys (h_meta e)))"

section \<open>Facts about the model\<close>

subsection \<open>Objects and the helper\<close>

lemma obj_at_simps [simp]:
  "a < length h \<Longrightarrow> obj_at h a = Some (h ! a)"
  "\<not> a < length h \<Longrightarrow> obj_at h a = None"
  by (simp_all add: obj_at_def)

lemma obj_at_length: "obj_at h a = Some x \<Longrightarrow> a < length h"
  by (simp add: obj_at_def split: if_splits)

lemma helper_handle: "obj_at h a = Some (Handle e) \<Longrightarrow> helper h (VObj a) = Inr (a, e)"
  by (simp add: helper_def)

lemma helper_reference:
  assumes "obj_at h r = Some (Reference \<rho>)" "entity \<rho> = VObj b" "obj_at h b = Some (Handle e)"
  shows "helper h (VObj r) = Inr (b, e)"
proof -
  from assms(1) have "r < length h" by (rule obj_at_length)
  then obtain m where "length h = Suc m" by (cases "length h") auto
  with assms show ?thesis by (simp add: helper_def)
qed

lemma unwrap_reference: "obj_at h r = Some (Reference \<rho>) \<Longrightarrow> unwrap h r = Inr (entity \<rho>)"
  by (simp add: unwrap_def)

lemma member_method_reference: "obj_at h r = Some (Reference \<rho>) \<Longrightarrow> member_method h (VObj r) m = Inr ()"
  by (simp add: member_method_def)

lemma isInitialized_reference:
  assumes "obj_at h r = Some (Reference \<rho>)" "entity \<rho> = VObj b" "obj_at h b = Some (Handle e)"
  shows "isInitialized h r = Inr (h_initialized e)"
  using assms by (simp add: isInitialized_def unwrap_reference helper_handle)

subsection \<open>The invariant under updates of the heap\<close>

lemma wf_iff: "wf h \<longleftrightarrow> (\<forall>a<length h. obj_ok h (h ! a))"
  by (simp add: wf_def list_all_length)

lemma is_handle_iff: "is_handle h a \<longleftrightarrow> (\<exists>e. obj_at h a = Some (Handle e))"
  by (auto simp: is_handle_def split: option.splits obj.splits)

lemma is_reference_iff: "is_reference h a \<longleftrightarrow> (\<exists>\<rho>. obj_at h a = Some (Reference \<rho>))"
  by (auto simp: is_reference_def split: option.splits obj.splits)


lemma wf_marker:
  assumes "wf h" "obj_at h a = Some (Handle e)" "h_reference e = Some r"
  shows "\<exists>\<rho>. obj_at h r = Some (Reference \<rho>)"
proof -
  from assms(2) have "a < length h" "h ! a = Handle e"
    by (auto simp: obj_at_def split: if_splits)
  with assms(1) have "obj_ok h (Handle e)" by (auto simp: wf_iff)
  with assms(3) show ?thesis by (auto simp: is_reference_iff)
qed

lemma obj_ok_mono:
  assumes "obj_ok h ob"
    and "\<And>a. is_handle h a \<Longrightarrow> is_handle h' a"
    and "\<And>a. is_reference h a \<Longrightarrow> is_reference h' a"
  shows "obj_ok h' ob"
  using assms by (cases ob) (auto split: option.splits val.splits)

lemma obj_at_update:
  "obj_at (h[a := ob]) x = (if x = a \<and> a < length h then Some ob else obj_at h x)"
  by (auto simp: obj_at_def)

lemma obj_at_append:
  "obj_at (h @ [ob]) x = (if x = length h then Some ob else obj_at h x)"
  by (auto simp: obj_at_def nth_append)

lemma wf_update_handle:
  assumes "wf h" "obj_at h b = Some (Handle e)" "obj_ok h (Handle e')"
  shows "wf (h[b := Handle e'])"
proof -
  have hk: "\<And>a. is_handle h a \<Longrightarrow> is_handle (h[b := Handle e']) a"
    using assms(2) by (auto simp: is_handle_iff obj_at_update)
  have rk: "\<And>a. is_reference h a \<Longrightarrow> is_reference (h[b := Handle e']) a"
    using assms(2) by (auto simp: is_reference_iff obj_at_update)
  show ?thesis
    unfolding wf_iff
  proof (intro allI impI)
    fix a assume "a < length (h[b := Handle e'])"
    then have a: "a < length h" by simp
    have "obj_ok h (h[b := Handle e'] ! a)"
      using assms(1,3) a by (cases "a = b") (auto simp: wf_iff)
    then show "obj_ok (h[b := Handle e']) (h[b := Handle e'] ! a)"
      by (rule obj_ok_mono) (auto intro: hk rk)
  qed
qed

lemma wf_update_reference:
  assumes "wf h" "obj_at h r = Some (Reference \<rho>)" "obj_ok h (Reference \<rho>')"
  shows "wf (h[r := Reference \<rho>'])"
proof -
  have hk: "\<And>a. is_handle h a \<Longrightarrow> is_handle (h[r := Reference \<rho>']) a"
    using assms(2) by (auto simp: is_handle_iff obj_at_update)
  have rk: "\<And>a. is_reference h a \<Longrightarrow> is_reference (h[r := Reference \<rho>']) a"
    using assms(2) by (auto simp: is_reference_iff obj_at_update)
  show ?thesis
    unfolding wf_iff
  proof (intro allI impI)
    fix a assume "a < length (h[r := Reference \<rho>'])"
    then have a: "a < length h" by simp
    have "obj_ok h (h[r := Reference \<rho>'] ! a)"
      using assms(1,3) a by (cases "a = r") (auto simp: wf_iff)
    then show "obj_ok (h[r := Reference \<rho>']) (h[r := Reference \<rho>'] ! a)"
      by (rule obj_ok_mono) (auto intro: hk rk)
  qed
qed

lemma wf_append:
  assumes "wf h" "obj_ok h ob"
  shows "wf (h @ [ob])"
proof -
  have hk: "\<And>a. is_handle h a \<Longrightarrow> is_handle (h @ [ob]) a"
    by (auto simp: is_handle_iff obj_at_append dest: obj_at_length)
  have rk: "\<And>a. is_reference h a \<Longrightarrow> is_reference (h @ [ob]) a"
    by (auto simp: is_reference_iff obj_at_append dest: obj_at_length)
  show ?thesis
    unfolding wf_iff
  proof (intro allI impI)
    fix a assume "a < length (h @ [ob])"
    then have "obj_ok h ((h @ [ob]) ! a)"
      using assms by (cases "a = length h") (auto simp: wf_iff nth_append)
    then show "obj_ok (h @ [ob]) ((h @ [ob]) ! a)"
      by (rule obj_ok_mono) (auto intro: hk rk)
  qed
qed

subsection \<open>Re-pointing a wrapper\<close>

lemma unwrapReference_handle:
  "obj_at h a = Some (Handle e) \<Longrightarrow> unwrapReference h (VObj a) = Inr (VObj a)"
  by (simp add: unwrapReference_def isReference_def)

lemma unwrapReference_reference:
  "obj_at h a = Some (Reference \<rho>) \<Longrightarrow> unwrapReference h (VObj a) = Inr (entity \<rho>)"
  by (simp add: unwrapReference_def isReference_def unwrap_def member_method_def)



lemma set_reference_eq:
  assumes "obj_at (heap s) r = Some (Reference \<rho>)"
    and "unwrapReference (heap s) v = Inr (VObj b)"
    and "obj_at (heap s) b = Some (Handle e)"
  shows "set_reference s r v =
     (Inr (), s\<lparr>heap := (heap s)[r := Reference (\<rho>\<lparr>entity := VObj b\<rparr>),
                                  b := Handle (e\<lparr>h_reference := None\<rparr>)]\<rparr>)"
proof -
  from assms(1,3) have "r \<noteq> b" by auto
  with assms(3) have "obj_at ((heap s)[r := Reference (\<rho>\<lparr>entity := VObj b\<rparr>)]) b = Some (Handle e)"
    by (simp add: obj_at_update)
  then have "helper ((heap s)[r := Reference (\<rho>\<lparr>entity := VObj b\<rparr>)]) (VObj b) = Inr (b, e)"
    by (rule helper_handle)
  with assms(1,2) show ?thesis by (simp add: set_reference_def)
qed

lemma wf_set_reference:
  assumes "wf h" "obj_at h r = Some (Reference \<rho>)" "obj_at h b = Some (Handle e)"
  shows "wf (h[r := Reference (\<rho>\<lparr>entity := VObj b\<rparr>), b := Handle (e\<lparr>h_reference := None\<rparr>)])"
proof -
  from assms(2,3) have "r \<noteq> b" by auto
  have 1: "wf (h[r := Reference (\<rho>\<lparr>entity := VObj b\<rparr>)])"
    using assms by (intro wf_update_reference) (auto simp: is_handle_iff)
  have 2: "obj_at (h[r := Reference (\<rho>\<lparr>entity := VObj b\<rparr>)]) b = Some (Handle e)"
    using assms(3) \<open>r \<noteq> b\<close> by (simp add: obj_at_update)
  show ?thesis by (rule wf_update_handle [OF 1 2]) simp
qed

subsection \<open>Reading a property through a wrapper\<close>

lemma get_handle: "obj_at h a = Some (Handle e) \<Longrightarrow> get gspk h (VObj a) k = Inr (property e k)"
  by (simp add: get_def)


subsection \<open>The example heap\<close>




subsection \<open>load\<close>

text \<open>The tail of \<^verbatim>\<open>load\<close>, lines 125 to 129, given the wrapped handle.\<close>

lemma load_result:
  assumes "obj_at (heap s1) r = Some (Reference \<rho>1)" "entity \<rho>1 = VObj b1"
    "obj_at (heap s1) b1 = Some (Handle e1)"
  shows "(case unwrap (heap s1) r of
            Inl er \<Rightarrow> (Inl er, s1)
          | Inr this_entity \<Rightarrow>
              if truthy (opts_prop (opts_of arg))
              then (case to_string (opts_prop (opts_of arg)) of
                      Inl er \<Rightarrow> (Inl er, s1)
                    | Inr k \<Rightarrow> (get gspk (heap s1) this_entity k, s1))
              else (Inr this_entity, s1))
         = (Inr (case arg of PropertyKey k \<Rightarrow> if k \<noteq> [] then property e1 k else VObj b1
                 | _ \<Rightarrow> VObj b1), s1)"
  using assms by (cases arg) (simp_all add: unwrap_reference get_handle)

lemma load_initialized:
  assumes "obj_at (heap s) r = Some (Reference \<rho>)" "entity \<rho> = VObj b"
    "obj_at (heap s) b = Some (Handle e)" "h_initialized e"
  shows "load ini gspk s r arg =
           (Inr (case arg of PropertyKey k \<Rightarrow> if k \<noteq> [] then property e k else VObj b
                 | _ \<Rightarrow> VObj b), s)"
  using assms load_result [OF assms(1-3), of arg gspk]
  by (simp add: load_def isInitialized_reference member_method_reference)

lemma call_init_eq:
  assumes "obj_at (heap s) r = Some (Reference \<rho>)" "entity \<rho> = VObj b"
    "obj_at (heap s) b = Some (Handle e)"
    and "ini (heap s) b [VUndefined, populate os, lockMode os, connectionType os] = (res, h1)"
  shows "call_init ini s r os = (res, s\<lparr>heap := h1, init_calls := Suc (init_calls s)\<rparr>)"
  using assms by (simp add: call_init_def unwrap_reference helper_handle)

lemma load_uninitialized:
  assumes "obj_at (heap s) r = Some (Reference \<rho>)" "entity \<rho> = VObj b"
    "obj_at (heap s) b = Some (Handle e)" "\<not> h_initialized e"
    and "ini (heap s) b [VUndefined, populate (opts_of arg), lockMode (opts_of arg),
                         connectionType (opts_of arg)] = (Inr (), h1)"
    and "obj_at h1 r = Some (Reference \<rho>1)" "entity \<rho>1 = VObj b1"
    "obj_at h1 b1 = Some (Handle e1)"
  shows "load ini gspk s r arg =
           (Inr (case arg of PropertyKey k \<Rightarrow> if k \<noteq> [] then property e1 k else VObj b1
                 | _ \<Rightarrow> VObj b1),
            s\<lparr>heap := h1, init_calls := Suc (init_calls s)\<rparr>)"
proof -
  let ?s1 = "s\<lparr>heap := h1, init_calls := Suc (init_calls s)\<rparr>"
  have c: "call_init ini s r (opts_of arg) = (Inr (), ?s1)"
    by (rule call_init_eq [where ini = ini and os = "opts_of arg", OF assms(1-3) assms(5)])
  have "obj_at (heap ?s1) r = Some (Reference \<rho>1)" "obj_at (heap ?s1) b1 = Some (Handle e1)"
    using assms(6,8) by simp_all
  from load_result [OF this(1) assms(7) this(2), of arg gspk] c assms(1-4)
  show ?thesis by (simp add: load_def isInitialized_reference member_method_reference)
qed

lemma load_rejected:
  assumes "obj_at (heap s) r = Some (Reference \<rho>)" "entity \<rho> = VObj b"
    "obj_at (heap s) b = Some (Handle e)" "\<not> h_initialized e"
    and "ini (heap s) b [VUndefined, populate (opts_of arg), lockMode (opts_of arg),
                         connectionType (opts_of arg)] = (Inl er, h1)"
  shows "load ini gspk s r arg = (Inl er, s\<lparr>heap := h1, init_calls := Suc (init_calls s)\<rparr>)"
  using assms call_init_eq [where ini = ini and os = "opts_of arg", OF assms(1-3) assms(5)]
  by (simp add: load_def isInitialized_reference member_method_reference)

subsection \<open>The constructor, toReference and create on a well-formed heap\<close>

lemma shadows_iff: "shadows acc \<longleftrightarrow> (\<exists>k \<in> fst ` set acc. k \<in> set reference_members)"
  by (auto simp: shadows_def list_ex_iff)

lemma entity_member: "''entity'' \<in> set reference_members"
  by (simp add: reference_members_def)

lemma define_primary_keys_distinct:
  assumes "distinct ks" "set ks \<inter> fst ` set acc = {}" "''entity'' \<notin> set ks"
  shows "define_primary_keys acc ks = Inr (acc @ map (\<lambda>k. (k, PrimaryKeyGetter)) ks)"
  using assms
proof (induction ks arbitrary: acc)
  case Nil
  then show ?case by simp
next
  case (Cons k ks)
  from Cons.prems have "k \<notin> fst ` set acc" "k \<noteq> ''entity''" by auto
  moreover from Cons.prems have "distinct ks" "set ks \<inter> fst ` set (acc @ [(k, PrimaryKeyGetter)]) = {}"
    "''entity'' \<notin> set ks"
    by auto
  ultimately show ?case using Cons.IH [of "acc @ [(k, PrimaryKeyGetter)]"]
    by (simp add: defineProperty_def)
qed

lemma define_serialized_primary_key_ok:
  assumes "meta_ok m"
  shows "\<exists>acc'. define_serialized_primary_key m (map (\<lambda>k. (k, PrimaryKeyGetter)) (primaryKeys m)) = Inr acc'
           \<and> \<not> shadows acc'
           \<and> (\<forall>k \<in> set (primaryKeys m). map_of acc' k = Some PrimaryKeyGetter)"
proof -
  let ?acc = "map (\<lambda>k. (k, PrimaryKeyGetter)) (primaryKeys m)"
  from assms have ns: "\<not> shadows ?acc"
    by (auto simp: shadows_iff meta_ok_def image_image)
  have pk: "\<forall>k \<in> set (primaryKeys m). map_of ?acc k = Some PrimaryKeyGetter"
    by (auto simp: map_of_map_restrict)
  show ?thesis
  proof (cases "serializedPrimaryKey m")
    case None
    with ns pk show ?thesis by (simp add: define_serialized_primary_key_def)
  next
    case (Some spk)
    show ?thesis
    proof (cases "spk \<noteq> [] \<and> (case primaryKeys m of [] \<Rightarrow> True | p # ps \<Rightarrow> p \<noteq> spk)")
      case False
      with Some ns pk show ?thesis by (auto simp: define_serialized_primary_key_def)
    next
      case True
      from assms Some have nm: "spk \<notin> set reference_members" by (simp add: meta_ok_def)
      with entity_member have ne: "spk \<noteq> ''entity''" by auto
      from assms Some True have np: "spk \<notin> set (primaryKeys m)"
        by (cases "primaryKeys m") (auto simp: meta_ok_def)
      from np ne True Some
      have d: "define_serialized_primary_key m ?acc = Inr (?acc @ [(spk, SerializedPrimaryKeyGetter)])"
        by (auto simp: define_serialized_primary_key_def defineProperty_def image_image)
      have "\<not> shadows (?acc @ [(spk, SerializedPrimaryKeyGetter)])"
        using ns nm by (auto simp: shadows_iff)
      moreover have "\<forall>k \<in> set (primaryKeys m).
          map_of (?acc @ [(spk, SerializedPrimaryKeyGetter)]) k = Some PrimaryKeyGetter"
        using pk by (auto simp: map_add_def split: option.splits)
      ultimately show ?thesis using d by simp
    qed
  qed
qed

lemma new_Reference_handle:
  assumes "wf (heap s)" "obj_at (heap s) b = Some (Handle e)" "meta_ok (h_meta e)"
  shows "\<exists>acc. new_Reference s (VObj b) =
           (Inr (length (heap s)),
            s\<lparr>heap := (heap s @ [Reference \<lparr>entity = VObj b, accessors = []\<rparr>])
                 [length (heap s) := Reference \<lparr>entity = VObj b, accessors = []\<rparr>,
                  b := Handle (e\<lparr>h_reference := None\<rparr>),
                  length (heap s) := Reference \<lparr>entity = VObj b, accessors = acc\<rparr>]\<rparr>)
         \<and> (\<forall>k \<in> set (primaryKeys (h_meta e)). map_of acc k = Some PrimaryKeyGetter)"
proof -
  let ?r = "length (heap s)"
  let ?R0 = "\<lparr>entity = VObj b, accessors = []\<rparr>"
  let ?s0 = "s\<lparr>heap := heap s @ [Reference ?R0]\<rparr>"
  let ?e0 = "e\<lparr>h_reference := None\<rparr>"
  let ?s1 = "?s0\<lparr>heap := (heap ?s0)[?r := Reference (?R0\<lparr>entity := VObj b\<rparr>), b := Handle ?e0]\<rparr>"
  from assms(2) have bl: "b < ?r" by (rule obj_at_length)
  have r0: "obj_at (heap ?s0) ?r = Some (Reference ?R0)" by (simp add: obj_at_append)
  have b0: "obj_at (heap ?s0) b = Some (Handle e)" using assms(2) bl by (simp add: obj_at_append)
  have set: "set_reference ?s0 ?r (VObj b) = (Inr (), ?s1)"
    by (rule set_reference_eq [OF r0 unwrapReference_handle [OF b0] b0])
  have un: "unwrap (heap ?s1) ?r = Inr (VObj b)"
    using bl by (simp add: unwrap_def obj_at_update)
  have "obj_at (heap ?s1) b = Some (Handle ?e0)" using bl by (simp add: obj_at_update)
  then have he: "helper (heap ?s1) (VObj b) = Inr (b, ?e0)" by (rule helper_handle)
  from assms(3) entity_member have "''entity'' \<notin> set (primaryKeys (h_meta e))"
    by (auto simp: meta_ok_def)
  with assms(3) have pk: "define_primary_keys [] (primaryKeys (h_meta e))
      = Inr (map (\<lambda>k. (k, PrimaryKeyGetter)) (primaryKeys (h_meta e)))"
    using define_primary_keys_distinct [of "primaryKeys (h_meta e)" "[]"] by (simp add: meta_ok_def)
  from define_serialized_primary_key_ok [OF assms(3)] obtain acc'
    where spk: "define_serialized_primary_key (h_meta e)
                  (map (\<lambda>k. (k, PrimaryKeyGetter)) (primaryKeys (h_meta e))) = Inr acc'"
      and ns: "\<not> shadows acc'"
      and acc': "\<forall>k \<in> set (primaryKeys (h_meta e)). map_of acc' k = Some PrimaryKeyGetter"
    by blast
  have "new_Reference s (VObj b) =
          (Inr ?r, ?s1\<lparr>heap := (heap ?s1)[?r := Reference \<lparr>entity = VObj b, accessors = acc'\<rparr>]\<rparr>)"
    using set un he pk spk ns by (simp add: new_Reference_def Let_def)
  with acc' show ?thesis by (intro exI [of _ acc']) simp
qed

lemma new_Reference_handle_props:
  assumes "wf (heap s)" "obj_at (heap s) b = Some (Handle e)" "meta_ok (h_meta e)"
  shows "\<exists>acc s'. new_Reference s (VObj b) = (Inr (length (heap s)), s')
      \<and> obj_at (heap s') (length (heap s)) = Some (Reference \<lparr>entity = VObj b, accessors = acc\<rparr>)
      \<and> obj_at (heap s') b = Some (Handle (e\<lparr>h_reference := None\<rparr>))
      \<and> (\<forall>x. x \<noteq> b \<longrightarrow> x < length (heap s) \<longrightarrow> obj_at (heap s') x = obj_at (heap s) x)
      \<and> length (heap s') = Suc (length (heap s))
      \<and> wf (heap s')
      \<and> init_calls s' = init_calls s \<and> factory_calls s' = factory_calls s
      \<and> (\<forall>k \<in> set (primaryKeys (h_meta e)). map_of acc k = Some PrimaryKeyGetter)"
proof -
  let ?r = "length (heap s)"
  let ?R0 = "\<lparr>entity = VObj b, accessors = []\<rparr>"
  let ?e0 = "e\<lparr>h_reference := None\<rparr>"
  let ?h0 = "heap s @ [Reference ?R0]"
  let ?h1 = "?h0[?r := Reference ?R0, b := Handle ?e0]"
  from new_Reference_handle [OF assms] obtain acc
    where new: "new_Reference s (VObj b) =
           (Inr ?r, s\<lparr>heap := ?h1[?r := Reference \<lparr>entity = VObj b, accessors = acc\<rparr>]\<rparr>)"
      and acc: "\<forall>k \<in> set (primaryKeys (h_meta e)). map_of acc k = Some PrimaryKeyGetter"
    by blast
  let ?h2 = "?h1[?r := Reference \<lparr>entity = VObj b, accessors = acc\<rparr>]"
  from assms(2) have bl: "b < ?r" by (rule obj_at_length)
  have hb: "is_handle (heap s) b" using assms(2) by (auto simp: is_handle_iff)
  have "obj_ok (heap s) (Reference ?R0)" using hb by simp
  with assms(1) have wf0: "wf ?h0" by (rule wf_append)
  have r0: "obj_at ?h0 ?r = Some (Reference ?R0)" by (simp add: obj_at_append)
  have b0: "obj_at ?h0 b = Some (Handle e)" using assms(2) bl by (simp add: obj_at_append)
  have wf1: "wf ?h1" using wf_set_reference [OF wf0 r0 b0] by simp
  have r1: "obj_at ?h1 ?r = Some (Reference ?R0)" using bl by (simp add: obj_at_update)
  have b1: "obj_at ?h1 b = Some (Handle ?e0)" using bl by (simp add: obj_at_update)
  have "obj_ok ?h1 (Reference \<lparr>entity = VObj b, accessors = acc\<rparr>)"
    using b1 by (simp add: is_handle_iff)
  then have wf2: "wf ?h2" by (rule wf_update_reference [OF wf1 r1])
  have "obj_at ?h2 ?r = Some (Reference \<lparr>entity = VObj b, accessors = acc\<rparr>)"
    by (simp add: obj_at_update)
  moreover have "obj_at ?h2 b = Some (Handle ?e0)" using bl by (simp add: obj_at_update)
  moreover have "\<forall>x. x \<noteq> b \<longrightarrow> x < ?r \<longrightarrow> obj_at ?h2 x = obj_at (heap s) x"
    by (simp add: obj_at_update obj_at_append)
  moreover have "length ?h2 = Suc ?r" by simp
  ultimately show ?thesis using new acc wf2
    by (intro exI [of _ acc] exI [of _ "s\<lparr>heap := ?h2\<rparr>"]) simp
qed

lemma toReference_handle:
  assumes "wf (heap s)" "obj_at (heap s) b = Some (Handle e)" "meta_ok (h_meta e)"
  shows "\<exists>ref s1 \<rho> e1. toReference s b = (Inr ref, s1)
      \<and> wf (heap s1)
      \<and> obj_at (heap s1) ref = Some (Reference \<rho>)
      \<and> obj_at (heap s1) b = Some (Handle e1) \<and> h_meta e1 = h_meta e
      \<and> (\<forall>x ob. x \<noteq> b \<longrightarrow> obj_at (heap s) x = Some ob \<longrightarrow> obj_at (heap s1) x = Some ob)"
proof (cases "h_reference e")
  case (Some r0)
  from wf_marker [OF assms(1,2) Some] obtain \<rho> where "obj_at (heap s) r0 = Some (Reference \<rho>)" ..
  with assms Some show ?thesis by (auto simp: toReference_def)
next
  case None
  let ?r = "length (heap s)"
  from new_Reference_handle_props [OF assms] obtain acc s'
    where new: "new_Reference s (VObj b) = (Inr ?r, s')"
      and r': "obj_at (heap s') ?r = Some (Reference \<lparr>entity = VObj b, accessors = acc\<rparr>)"
      and b': "obj_at (heap s') b = Some (Handle (e\<lparr>h_reference := None\<rparr>))"
      and other: "\<forall>x. x \<noteq> b \<longrightarrow> x < ?r \<longrightarrow> obj_at (heap s') x = obj_at (heap s) x"
      and wf': "wf (heap s')"
    by blast
  let ?e1 = "e\<lparr>h_reference := Some ?r\<rparr>"
  let ?s1 = "s'\<lparr>heap := (heap s')[b := Handle ?e1]\<rparr>"
  from assms(2) have bl: "b < ?r" by (rule obj_at_length)
  from b' have bl': "b < length (heap s')" by (rule obj_at_length)
  have to: "toReference s b = (Inr ?r, ?s1)"
    using assms(2) None new b' by (simp add: toReference_def)
  have "obj_ok (heap s') (Handle ?e1)" using r' by (simp add: is_reference_iff)
  then have "wf (heap ?s1)" using wf_update_handle [OF wf' b'] by simp
  moreover have "obj_at (heap ?s1) ?r = Some (Reference \<lparr>entity = VObj b, accessors = acc\<rparr>)"
    using r' bl by (simp add: obj_at_update)
  moreover have "obj_at (heap ?s1) b = Some (Handle ?e1)" using bl' by (simp add: obj_at_update)
  moreover have "\<forall>x ob. x \<noteq> b \<longrightarrow> obj_at (heap s) x = Some ob \<longrightarrow> obj_at (heap ?s1) x = Some ob"
  proof (intro allI impI)
    fix x ob assume x: "x \<noteq> b" "obj_at (heap s) x = Some ob"
    from x(2) have "x < ?r" by (rule obj_at_length)
    with other x have "obj_at (heap s') x = Some ob" by metis
    moreover have "obj_at (heap ?s1) x = obj_at (heap s') x" using x(1) by (simp add: obj_at_update)
    ultimately show "obj_at (heap ?s1) x = Some ob" by simp
  qed
  ultimately show ?thesis using to by (intro exI [of _ ?r] exI [of _ ?s1]) auto
qed

lemma create_handle:
  assumes "wf (heap s)" "obj_at (heap s) b = Some (Handle e)" "meta_ok (h_meta e)"
    and v: "a = b \<or> (\<exists>\<rho>a. obj_at (heap s) a = Some (Reference \<rho>a) \<and> entity \<rho>a = VObj b)"
  shows "\<exists>ref s' \<rho>' e'. create s (VObj a) = (Inr (VObj ref), s')
      \<and> wf (heap s')
      \<and> obj_at (heap s') ref = Some (Reference \<rho>') \<and> entity \<rho>' = VObj b
      \<and> obj_at (heap s') b = Some (Handle e') \<and> h_meta e' = h_meta e
      \<and> (\<forall>x \<rho>x. obj_at (heap s) x = Some (Reference \<rho>x) \<longrightarrow> entity \<rho>x = VObj b \<longrightarrow>
            (\<exists>\<rho>x'. obj_at (heap s') x = Some (Reference \<rho>x') \<and> entity \<rho>x' = VObj b))"
proof -
  from v assms(2) have uv: "unwrapReference (heap s) (VObj a) = Inr (VObj b)"
    by (auto simp: unwrapReference_handle unwrapReference_reference)
  from v assms(2) have hv: "helper (heap s) (VObj a) = Inr (b, e)"
    by (auto simp: helper_handle helper_reference)
  from toReference_handle [OF assms(1-3)] obtain ref s1 \<rho> e1
    where to: "toReference s b = (Inr ref, s1)"
      and wf1: "wf (heap s1)"
      and r1: "obj_at (heap s1) ref = Some (Reference \<rho>)"
      and b1: "obj_at (heap s1) b = Some (Handle e1)" and m1: "h_meta e1 = h_meta e"
      and other: "\<forall>x ob. x \<noteq> b \<longrightarrow> obj_at (heap s) x = Some ob \<longrightarrow> obj_at (heap s1) x = Some ob"
    by blast
  have un1: "unwrap (heap s1) ref = Inr (entity \<rho>)" using r1 by (rule unwrap_reference)
  have me1: "member_method (heap s1) (VObj ref) m = Inr ()" for m using r1 by (rule member_method_reference)
  have keep1: "obj_at (heap s1) x = Some (Reference \<rho>x)"
    if "obj_at (heap s) x = Some (Reference \<rho>x)" for x \<rho>x
  proof -
    from that assms(2) have "x \<noteq> b" by auto
    with other that show ?thesis by blast
  qed
  show ?thesis
  proof (cases "VObj b = entity \<rho>")
    case True
    with uv hv to un1 me1 have c: "create s (VObj a) = (Inr (VObj ref), s1)"
      by (simp add: create_def)
    from c wf1 r1 b1 m1 True keep1 show ?thesis
      by (intro exI [of _ ref] exI [of _ s1] exI [of _ \<rho>] exI [of _ e1]) auto
  next
    case False
    let ?s2 = "s1\<lparr>heap := (heap s1)[ref := Reference (\<rho>\<lparr>entity := VObj b\<rparr>),
                                       b := Handle (e1\<lparr>h_reference := None\<rparr>)]\<rparr>"
    have set: "set_reference s1 ref (VObj b) = (Inr (), ?s2)"
      by (rule set_reference_eq [OF r1 unwrapReference_handle [OF b1] b1])
    with uv hv to un1 me1 False have c: "create s (VObj a) = (Inr (VObj ref), ?s2)"
      by (simp add: create_def)
    from r1 b1 have ne: "ref \<noteq> b" by auto
    from r1 have rl: "ref < length (heap s1)" by (rule obj_at_length)
    from b1 have bl: "b < length (heap s1)" by (rule obj_at_length)
    have wf2: "wf (heap ?s2)" using wf_set_reference [OF wf1 r1 b1] by simp
    have r2: "obj_at (heap ?s2) ref = Some (Reference (\<rho>\<lparr>entity := VObj b\<rparr>))"
      using ne rl bl by (simp add: obj_at_update)
    have b2: "obj_at (heap ?s2) b = Some (Handle (e1\<lparr>h_reference := None\<rparr>))"
      using ne rl bl by (simp add: obj_at_update)
    have keep2: "\<exists>\<rho>x'. obj_at (heap ?s2) x = Some (Reference \<rho>x') \<and> entity \<rho>x' = VObj b"
      if "obj_at (heap s) x = Some (Reference \<rho>x)" "entity \<rho>x = VObj b" for x \<rho>x
    proof (cases "x = ref")
      case True
      with r2 show ?thesis by simp
    next
      case False
      from that(1) assms(2) have "x \<noteq> b" by auto
      with keep1 [OF that(1)] that(2) False show ?thesis by (simp add: obj_at_update)
    qed
    from c wf2 r2 b2 m1 keep2 show ?thesis
      by (intro exI [of _ ref] exI [of _ ?s2] exI [of _ "\<rho>\<lparr>entity := VObj b\<rparr>"]
          exI [of _ "e1\<lparr>h_reference := None\<rparr>"]) auto
  qed
qed


subsection \<open>createNakedFromPK\<close>

lemma set_fold_add: "set (fold add ks xs) = set xs \<union> set ks"
  by (induction ks arbitrary: xs) (auto simp: add_def)

lemma createNakedFromPK_handle:
  assumes "createReference F (heap s) ty pk \<lparr>merge = False, convertCustomTypes = False, schema = sch\<rparr>
             = (Inr (VObj a), h1)"
    and "obj_at h1 a = Some (Handle e)"
  shows "\<exists>e' s'. createNakedFromPK F s ty pk sch = (Inr (VObj a), s')
           \<and> obj_at (heap s') a = Some (Handle e')
           \<and> h_initialized e' = h_initialized e \<and> properties e' = properties e
           \<and> h_reference e' = h_reference e \<and> h_meta e' = h_meta e
           \<and> set (primaryKeys (h_meta e)) \<subseteq> set (h_loadedProperties e')
           \<and> (\<forall>x. x \<noteq> a \<longrightarrow> obj_at (heap s') x = obj_at h1 x)
           \<and> factory_calls s' = Suc (factory_calls s) \<and> init_calls s' = init_calls s"
proof -
  from assms(2) have al: "a < length h1" by (rule obj_at_length)
  from assms(2) have "helper h1 (VObj a) = Inr (a, e)" by (rule helper_handle)
  with assms(1) al show ?thesis
    by (simp add: createNakedFromPK_def Let_def obj_at_update set_fold_add)
qed

section \<open>Identifier accessors after re-pointing\<close>



section \<open>create\<close>

text \<open>
  What \<^verbatim>\<open>Reference.create\<close> does on a handle \<open>b\<close> of a well-formed heap, raw
  (\<open>a = b\<close>) or wrapped in the \<^verbatim>\<open>Reference\<close> at \<open>a\<close>, when no primary key of the
  entity is named like a member of \<^verbatim>\<open>Reference\<close>: it returns a \<^verbatim>\<open>Reference\<close> that
  wraps \<open>b\<close> and leaves the heap well formed; a second \<^verbatim>\<open>create\<close> returns a
  \<^verbatim>\<open>Reference\<close> again, and after it both wrappers wrap \<open>b\<close>.
\<close>

lemma create_twice_same_handle:
  assumes "wf (heap s)" "obj_at (heap s) b = Some (Handle e)" "meta_ok (h_meta e)"
    and "a = b \<or> (\<exists>\<rho>a. obj_at (heap s) a = Some (Reference \<rho>a) \<and> entity \<rho>a = VObj b)"
  shows "\<exists>r s' \<rho>1 r2 s'' \<rho>2 \<rho>3.
           create s (VObj a) = (Inr (VObj r), s')
         \<and> obj_at (heap s') r = Some (Reference \<rho>1) \<and> entity \<rho>1 = VObj b
         \<and> unwrap (heap s') r = Inr (VObj b)
         \<and> wf (heap s')
         \<and> create s' (VObj a) = (Inr (VObj r2), s'')
         \<and> obj_at (heap s'') r2 = Some (Reference \<rho>2) \<and> entity \<rho>2 = VObj b
         \<and> obj_at (heap s'') r = Some (Reference \<rho>3) \<and> entity \<rho>3 = VObj b
         \<and> unwrap (heap s'') r2 = Inr (VObj b) \<and> unwrap (heap s'') r = Inr (VObj b)"
proof -
  from create_handle [OF assms] obtain r s' \<rho>1 e'
    where c1: "create s (VObj a) = (Inr (VObj r), s')"
      and wf1: "wf (heap s')"
      and r1: "obj_at (heap s') r = Some (Reference \<rho>1)" "entity \<rho>1 = VObj b"
      and b1: "obj_at (heap s') b = Some (Handle e')" and m1: "h_meta e' = h_meta e"
      and keep1: "\<forall>x \<rho>x. obj_at (heap s) x = Some (Reference \<rho>x) \<longrightarrow> entity \<rho>x = VObj b \<longrightarrow>
            (\<exists>\<rho>x'. obj_at (heap s') x = Some (Reference \<rho>x') \<and> entity \<rho>x' = VObj b)"
    by blast
  from assms(3) m1 have mo: "meta_ok (h_meta e')" by simp
  from assms(4) keep1
  have a1: "a = b \<or> (\<exists>\<rho>a. obj_at (heap s') a = Some (Reference \<rho>a) \<and> entity \<rho>a = VObj b)"
    by blast
  from create_handle [OF wf1 b1 mo a1] obtain r2 s'' \<rho>2
    where c2: "create s' (VObj a) = (Inr (VObj r2), s'')"
      and r2: "obj_at (heap s'') r2 = Some (Reference \<rho>2)" "entity \<rho>2 = VObj b"
      and keep2: "\<forall>x \<rho>x. obj_at (heap s') x = Some (Reference \<rho>x) \<longrightarrow> entity \<rho>x = VObj b \<longrightarrow>
            (\<exists>\<rho>x'. obj_at (heap s'') x = Some (Reference \<rho>x') \<and> entity \<rho>x' = VObj b)"
    by blast
  from keep2 r1 obtain \<rho>3 where r3: "obj_at (heap s'') r = Some (Reference \<rho>3)" "entity \<rho>3 = VObj b"
    by blast
  from r1 have "unwrap (heap s') r = Inr (VObj b)" by (simp add: unwrap_reference)
  moreover from r2 have "unwrap (heap s'') r2 = Inr (VObj b)" by (simp add: unwrap_reference)
  moreover from r3 have "unwrap (heap s'') r = Inr (VObj b)" by (simp add: unwrap_reference)
  ultimately show ?thesis using c1 wf1 r1 c2 r2 r3 by blast
qed

text \<open>
  On the example heaps: the raw author at 0, whose marker is the wrapper at 1 that
  was re-pointed away; and the author at 2 given wrapped, by the wrapper at 1, when
  it has no marker.
\<close>

lemma create_examples:
  "create (state_of heap4_repointed) (VObj 0) = (Inr (VObj 1), state_of heap4_claimed)
   \<and> unwrap heap4_claimed 1 = Inr (VObj 0)
   \<and> create (state_of heap4_claimed) (VObj 0) = (Inr (VObj 4), state_of heap5)
   \<and> unwrap heap5 4 = Inr (VObj 0) \<and> unwrap heap5 1 = Inr (VObj 0)
   \<and> create (state_of heap4) (VObj 3) = (Inr (VObj 3), state_of heap4)
   \<and> unwrap heap4 3 = Inr (VObj 2)
   \<and> create (state_of heap4_repointed) (VObj 1)
       = (Inr (VObj 4), state_of
            [Handle (author 7 False (Some 1)), Reference (id_ref 2),
             Handle (author 8 True (Some 4)), Reference (id_ref 2), Reference (id_ref 2)])"
  by (simp add: create_def toReference_def new_Reference_def set_reference_def
      unwrapReference_def isReference_def unwrap_def member_method_def helper_def defineProperty_def
      define_serialized_primary_key_def shadows_def reference_members_def heap4_def
      heap4_repointed_def heap4_claimed_def heap5_def state_of_def id_ref_def author_def
      author_meta_def Let_def)

text \<open>
  A primary key named like a method of \<^verbatim>\<open>Reference\<close> hides the method. When it is
  named \<^verbatim>\<open>unwrap\<close>, \<^verbatim>\<open>ref.unwrap\<close> on line 50 is the value of the primary key, 7,
  which cannot be called: \<^verbatim>\<open>create\<close> throws \<^verbatim>\<open>TypeError\<close>. When it is named \<^verbatim>\<open>set\<close>,
  \<^verbatim>\<open>create\<close> returns the wrapper, line 51 not being reached, and a call of
  \<^verbatim>\<open>ref.set\<close> would throw.
\<close>

lemma create_on_key_named_like_a_method:
  "create (state_of [Handle (keyed ''unwrap'' None)]) (VObj 0)
     = (Inl TypeError,
        state_of [Handle (keyed ''unwrap'' (Some 1)), Shadowed (keyed_ref ''unwrap'')])
   \<and> create (state_of [Handle (keyed ''set'' None)]) (VObj 0)
     = (Inr (VObj 1), state_of [Handle (keyed ''set'' (Some 1)), Shadowed (keyed_ref ''set'')])
   \<and> unwrap [Handle (keyed ''set'' (Some 1)), Shadowed (keyed_ref ''set'')] 1 = Inr (VObj 0)
   \<and> member_method [Handle (keyed ''set'' (Some 1)), Shadowed (keyed_ref ''set'')] (VObj 1) ''set''
     = Inl TypeError"
  by (simp add: create_def toReference_def new_Reference_def set_reference_def
      unwrapReference_def isReference_def unwrap_def member_method_def helper_def defineProperty_def
      define_serialized_primary_key_def shadows_def shadowed_entity_def reference_members_def
      state_of_def keyed_def keyed_meta_def keyed_ref_def Let_def)

text \<open>
  C2, at the input where the code departs from it. The entity type \<^verbatim>\<open>Link\<close> has the
  primary key \<^verbatim>\<open>entity\<close>. The heap that holds one handle of it is well formed. The
  constructor returns a wrapper on which line 30 has replaced the field
  \<^verbatim>\<open>entity\<close> by the getter of the primary key, and \<^verbatim>\<open>unwrap()\<close> on that wrapper
  throws \<^verbatim>\<open>RangeError\<close>: the getter reads \<^verbatim>\<open>this.entity\<close>, which is the getter.
  So \<^verbatim>\<open>Reference.create\<close> on the raw handle throws at line 50, after the wrapper
  has become the marker of the handle, and \<^verbatim>\<open>create\<close> on the wrapper throws at
  line 47: no \<^verbatim>\<open>Reference\<close> is returned. On the authors, whose primary key is
  named \<^verbatim>\<open>id\<close>, \<^verbatim>\<open>create\<close> returns a \<^verbatim>\<open>Reference\<close> that wraps the handle, given
  raw or wrapped.
\<close>

theorem create_throws_on_key_named_entity:
  "wf [Handle (link None)]
   \<and> new_Reference (state_of [Handle (link None)]) (VObj 0)
       = (Inr 1, state_of [Handle (link None), Shadowed link_ref])
   \<and> unwrap [Handle (link None), Shadowed link_ref] 1 = Inl RangeError
   \<and> create (state_of [Handle (link None)]) (VObj 0)
       = (Inl RangeError, state_of [Handle (link (Some 1)), Shadowed link_ref])
   \<and> create (state_of [Handle (link (Some 1)), Shadowed link_ref]) (VObj 1)
       = (Inl RangeError, state_of [Handle (link (Some 1)), Shadowed link_ref])
   \<and> create (state_of heap4_repointed) (VObj 0) = (Inr (VObj 1), state_of heap4_claimed)
   \<and> unwrap heap4_claimed 1 = Inr (VObj 0)
   \<and> create (state_of heap4) (VObj 3) = (Inr (VObj 3), state_of heap4)
   \<and> unwrap heap4 3 = Inr (VObj 2)"
  by (simp add: wf_def create_def toReference_def new_Reference_def set_reference_def
      unwrapReference_def isReference_def unwrap_def member_method_def helper_def defineProperty_def
      define_serialized_primary_key_def shadows_def shadowed_entity_def reference_members_def
      state_of_def link_def link_ref_def keyed_def keyed_meta_def keyed_ref_def heap4_def
      heap4_repointed_def heap4_claimed_def id_ref_def author_def author_meta_def Let_def)

section \<open>getEntity and getProperty\<close>

text \<open>
  Let the \<^verbatim>\<open>Reference\<close> at \<open>r\<close> wrap the handle \<open>e\<close> at \<open>b\<close>. When \<open>e\<close> is
  initialized, \<^verbatim>\<open>getEntity()\<close> returns the wrapped handle and \<^verbatim>\<open>getProperty(k)\<close>
  its property. When \<open>e\<close> is not initialized, both throw an \<^verbatim>\<open>Error\<close> whose message
  is \<^verbatim>\<open>Reference<NAME> PK not initialized\<close>, with the declared name of the entity's
  metadata and the string that the template literal makes of the helper's
  \<^verbatim>\<open>getPrimaryKey()\<close>. The helper's \<^verbatim>\<open>getSerializedPrimaryKey()\<close> is not called.
\<close>

lemma getEntity_initialized_or_throws:
  assumes "obj_at h r = Some (Reference \<rho>)" "entity \<rho> = VObj b" "obj_at h b = Some (Handle e)"
  shows "getEntity gpk h r =
           (if h_initialized e then Inr (VObj b)
            else (case to_string (gpk e) of
                    Inl er \<Rightarrow> Inl er
                  | Inr p \<Rightarrow> Inl (Error (''Reference<'' @ name (h_meta e) @ ''> '' @ p
                                         @ '' not initialized''))))
         \<and> (\<not> h_initialized e \<longrightarrow> getProperty gpk gspk h r k = getEntity gpk h r)
         \<and> (h_initialized e \<longrightarrow> getProperty gpk gspk h r k = Inr (property e k))"
  using assms
  by (simp add: getEntity_def getProperty_def isInitialized_reference unwrap_reference
      member_method_reference helper_handle not_initialized_message_def get_def split: sum.splits)

lemma getEntity_author_example:
  "getEntity author_pk [Handle (author 7 False (Some 1)), Reference (id_ref 0)] 1
     = Inl (Error ''Reference<Author> 7 not initialized'')
   \<and> getProperty author_pk author_pk [Handle (author 7 False (Some 1)), Reference (id_ref 0)] 1 ''id''
     = Inl (Error ''Reference<Author> 7 not initialized'')
   \<and> getEntity author_pk [Handle (author 7 True (Some 1)), Reference (id_ref 0)] 1
     = Inr (VObj 0)
   \<and> getProperty author_pk author_pk [Handle (author 7 True (Some 1)), Reference (id_ref 0)] 1 ''id''
     = Inr (VNum 7)"
  using
    getEntity_initialized_or_throws [of "[Handle (author 7 False (Some 1)), Reference (id_ref 0)]"
      1 "id_ref 0" 0 "author 7 False (Some 1)" author_pk author_pk "''id''"]
    getEntity_initialized_or_throws [of "[Handle (author 7 True (Some 1)), Reference (id_ref 0)]"
      1 "id_ref 0" 0 "author 7 True (Some 1)" author_pk author_pk "''id''"]
  by (simp add: author_def id_ref_def author_meta_def author_pk_def property_def digits.simps
      digit_char_def)

text \<open>
  Whenever the helper's \<^verbatim>\<open>getPrimaryKey()\<close> returns a plain object, the message has
  \<^verbatim>\<open>[object Object]\<close> in the place of the primary key.
\<close>

lemma getEntity_object_key:
  assumes "obj_at h r = Some (Reference \<rho>)" "entity \<rho> = VObj b" "obj_at h b = Some (Handle e)"
    and "\<not> h_initialized e" "gpk e = VPlain ps" "map_of ps ''toString'' = None"
  shows "getEntity gpk h r =
           Inl (Error (''Reference<'' @ name (h_meta e) @ ''> [object Object] not initialized''))"
  using getEntity_initialized_or_throws [OF assms(1-3), of gpk] assms(4-6) by simp

text \<open>
  C3, at the input where the code departs from it. The entity type \<^verbatim>\<open>OrderLine\<close> has
  a composite primary key, for which the helper's \<^verbatim>\<open>getPrimaryKey()\<close> returns an
  object. On the wrapper of an uninitialized handle \<^verbatim>\<open>getEntity()\<close> and
  \<^verbatim>\<open>getProperty\<close> throw an \<^verbatim>\<open>Error\<close> whose message has the name of the type and, for
  the primary key, \<^verbatim>\<open>[object Object]\<close>, whatever the key is: two handles with
  different keys give the same message, so the message carries no form of the
  primary-key value. For an author, whose primary key is the number \<^verbatim>\<open>id\<close>, the
  message shows the key, and on an initialized handle \<^verbatim>\<open>getEntity()\<close> returns the
  handle.
\<close>

theorem getEntity_message_without_composite_key:
  "composite_pk (order_line 1 2) = VPlain [(''order'', VNum 1), (''product'', VNum 2)]
   \<and> composite_pk (order_line 3 4) = VPlain [(''order'', VNum 3), (''product'', VNum 4)]
   \<and> getEntity composite_pk [Handle (order_line 1 2), Reference order_line_ref] 1
       = Inl (Error ''Reference<OrderLine> [object Object] not initialized'')
   \<and> getEntity composite_pk [Handle (order_line 3 4), Reference order_line_ref] 1
       = Inl (Error ''Reference<OrderLine> [object Object] not initialized'')
   \<and> getProperty composite_pk gspk [Handle (order_line 1 2), Reference order_line_ref] 1 ''order''
       = Inl (Error ''Reference<OrderLine> [object Object] not initialized'')
   \<and> getEntity author_pk [Handle (author 7 False (Some 1)), Reference (id_ref 0)] 1
       = Inl (Error ''Reference<Author> 7 not initialized'')
   \<and> getEntity author_pk [Handle (author 7 True (Some 1)), Reference (id_ref 0)] 1 = Inr (VObj 0)"
  by (simp add: getEntity_def getProperty_def isInitialized_def unwrap_def member_method_def helper_def
      not_initialized_message_def composite_pk_def order_line_def order_line_meta_def
      order_line_ref_def property_def author_def author_meta_def author_pk_def id_ref_def
      digits.simps digit_char_def)

section \<open>load fetches at most once\<close>



section \<open>What load returns\<close>

text \<open>
  What \<^verbatim>\<open>load\<close> returns, on a handle that is initialized and on one that the
  delegate materializes: for a property key other than the empty string, the
  value of that property of the wrapped handle in the final state; with no
  argument, with an options object, and for the empty key, the wrapped handle.
\<close>

lemma load_returns_property_or_handle:
  assumes "obj_at (heap s) r = Some (Reference \<rho>)" "entity \<rho> = VObj b"
    "obj_at (heap s) b = Some (Handle e)"
  shows "(h_initialized e \<longrightarrow>
            load ini gspk s r arg =
              (Inr (case arg of PropertyKey k \<Rightarrow> if k \<noteq> [] then property e k else VObj b
                    | _ \<Rightarrow> VObj b), s))
       \<and> (\<not> h_initialized e
          \<and> ini (heap s) b [VUndefined, populate (opts_of arg), lockMode (opts_of arg),
                             connectionType (opts_of arg)] = (Inr (), h1)
          \<and> obj_at h1 r = Some (Reference \<rho>1) \<and> entity \<rho>1 = VObj b1
          \<and> obj_at h1 b1 = Some (Handle e1) \<longrightarrow>
            load ini gspk s r arg =
              (Inr (case arg of PropertyKey k \<Rightarrow> if k \<noteq> [] then property e1 k else VObj b1
                    | _ \<Rightarrow> VObj b1),
               s\<lparr>heap := h1, init_calls := Suc (init_calls s)\<rparr>))"
  using load_initialized [OF assms, of ini gspk arg]
    load_uninitialized [where ini = ini and gspk = gspk and arg = arg and ?h1.0 = h1, OF assms]
  by blast

lemma load_returns_property_example:
  "load fetch_author author_pk (state_of heap4) 1 (PropertyKey ''name'')
     = (Inr (VStr ''Ann''), (state_of heap4_loaded)\<lparr>init_calls := 1\<rparr>)
   \<and> load fetch_author author_pk (state_of heap4) 3 (PropertyKey ''id'')
     = (Inr (VNum 8), state_of heap4)"
  by (simp add: load_def call_init_def isInitialized_def unwrap_def member_method_def helper_def get_def
      fetch_author_def state_of_def heap4_def heap4_loaded_def author_def id_ref_def property_def
      ann_def)

text \<open>
  C5, at the input where the code departs from it. The entity \<open>tag\<close> has a property
  named by the empty string, with the value 5. \<^verbatim>\<open>load('')\<close> on its wrapper returns
  the whole handle, not 5: \<^verbatim>\<open>opts.prop\<close> is the empty string, which is falsy, and
  line 125 takes it for no property key at all. On the same wrapper \<^verbatim>\<open>load('id')\<close>
  returns the property.
\<close>

theorem load_empty_key_returns_handle:
  "load ini gspk (state_of tag_heap) 1 (PropertyKey []) = (Inr (VObj 0), state_of tag_heap)
   \<and> property tag [] = VNum 5
   \<and> load ini gspk (state_of tag_heap) 1 (PropertyKey ''id'') = (Inr (VNum 1), state_of tag_heap)"
  by (simp add: load_def isInitialized_def unwrap_def member_method_def helper_def get_def state_of_def
      tag_heap_def tag_def id_ref_def property_def)

section \<open>Re-pointing clears the marker of the new handle\<close>



section \<open>unwrapReference strips the wrapper\<close>

text \<open>
  On a primitive that is truthy, which is no object, \<^verbatim>\<open>unwrapReference\<close> returns
  its argument and \<^verbatim>\<open>isReference\<close> returns \<^verbatim>\<open>false\<close>.
\<close>

lemma unwrapReference_truthy_primitive:
  "unwrapReference h (VBool True) = Inr (VBool True)
   \<and> isReference h (VBool True) = Inr (VBool False)
   \<and> unwrapReference h (VNum (of_nat (Suc n))) = Inr (VNum (of_nat (Suc n)))
   \<and> isReference h (VStr (c # cs)) = Inr (VBool False)
   \<and> unwrapReference h (VStr (c # cs)) = Inr (VStr (c # cs))"
  by (simp add: unwrapReference_def isReference_def)



section \<open>toJSON\<close>



section \<open>isReference on absent values\<close>

text \<open>
  C9, at the input where the code departs from it. On \<^verbatim>\<open>null\<close>
  \<^verbatim>\<open>Reference.isReference\<close> returns \<^verbatim>\<open>null\<close>, and on \<^verbatim>\<open>undefined\<close> it returns
  \<^verbatim>\<open>undefined\<close>, not the boolean \<^verbatim>\<open>false\<close>: \<^verbatim>\<open>data && !!data.__reference\<close> is its
  left operand when that is falsy. It does not throw. On an object the result is a
  boolean: \<^verbatim>\<open>true\<close> on the wrapper at 1 of \<open>heap4\<close>, \<^verbatim>\<open>false\<close> on the handle at 0.
\<close>

theorem isReference_returns_absent_value:
  "isReference h VNull = Inr VNull \<and> isReference h VUndefined = Inr VUndefined
   \<and> isReference h VNull \<noteq> Inr (VBool False) \<and> isReference h VUndefined \<noteq> Inr (VBool False)
   \<and> isReference heap4 (VObj 1) = Inr (VBool True)
   \<and> isReference heap4 (VObj 0) = Inr (VBool False)"
  by (simp add: isReference_def heap4_def)

section \<open>rel\<close>

text \<open>
  C10. \<^verbatim>\<open>rel(entityType, pk)\<close> returns \<open>pk\<close> and leaves the state as it was, the
  count of calls of the Entity Factory included, when \<open>pk\<close> is \<^verbatim>\<open>null\<close>,
  \<^verbatim>\<open>undefined\<close> or an entity. Otherwise it is \<^verbatim>\<open>createNakedFromPK(entityType, pk)\<close>,
  which calls the factory once; so the factory is called only for a bare
  identifier. When the factory returns a handle, \<^verbatim>\<open>rel\<close> returns that handle, with
  its initialization flag and its properties as the factory left them and its
  primary keys marked as loaded.
\<close>

theorem rel_dispatch:
  "(pk = VNull \<or> pk = VUndefined \<or> isEntity (heap s) pk \<longrightarrow> rel F s ty pk = (Inr pk, s))
   \<and> (\<not> (pk = VNull \<or> pk = VUndefined \<or> isEntity (heap s) pk) \<longrightarrow>
        rel F s ty pk = createNakedFromPK F s ty pk None
        \<and> factory_calls (snd (rel F s ty pk)) = Suc (factory_calls s))
   \<and> (factory_calls (snd (rel F s ty pk)) \<noteq> factory_calls s \<longrightarrow>
        pk \<noteq> VNull \<and> pk \<noteq> VUndefined \<and> \<not> isEntity (heap s) pk)
   \<and> (\<not> (pk = VNull \<or> pk = VUndefined \<or> isEntity (heap s) pk)
      \<and> createReference F (heap s) ty pk \<lparr>merge = False, convertCustomTypes = False, schema = None\<rparr>
           = (Inr (VObj a), h1)
      \<and> obj_at h1 a = Some (Handle e) \<longrightarrow>
        (\<exists>e' s'. rel F s ty pk = (Inr (VObj a), s')
           \<and> obj_at (heap s') a = Some (Handle e')
           \<and> h_initialized e' = h_initialized e \<and> properties e' = properties e
           \<and> set (primaryKeys (h_meta e)) \<subseteq> set (h_loadedProperties e')))"
proof -
  have calls: "factory_calls (snd (createNakedFromPK F s ty pk None)) = Suc (factory_calls s)"
    by (simp add: createNakedFromPK_def Let_def split: prod.splits sum.splits)
  have "\<exists>e' s'. rel F s ty pk = (Inr (VObj a), s')
           \<and> obj_at (heap s') a = Some (Handle e')
           \<and> h_initialized e' = h_initialized e \<and> properties e' = properties e
           \<and> set (primaryKeys (h_meta e)) \<subseteq> set (h_loadedProperties e')"
    if "\<not> (pk = VNull \<or> pk = VUndefined \<or> isEntity (heap s) pk)"
      and "createReference F (heap s) ty pk \<lparr>merge = False, convertCustomTypes = False, schema = None\<rparr>
           = (Inr (VObj a), h1)"
      and "obj_at h1 a = Some (Handle e)"
    using createNakedFromPK_handle [OF that(2,3)] that(1) by (auto simp: rel_def)
  then show ?thesis using calls by (auto simp: rel_def)
qed

theorem rel_dispatch_witness:
  "rel author_factory (state_of [Handle (author 7 True None)]) ''Author'' VNull
     = (Inr VNull, state_of [Handle (author 7 True None)])
   \<and> rel author_factory (state_of [Handle (author 7 True None)]) ''Author'' VUndefined
     = (Inr VUndefined, state_of [Handle (author 7 True None)])
   \<and> rel author_factory (state_of [Handle (author 7 True None)]) ''Author'' (VObj 0)
     = (Inr (VObj 0), state_of [Handle (author 7 True None)])
   \<and> rel author_factory (state_of [Handle (author 7 True None)]) ''Author'' (VNum 8)
     = (Inr (VObj 1), (state_of [Handle (author 7 True None), Handle skeleton8])\<lparr>factory_calls := 1\<rparr>)
   \<and> \<not> h_initialized skeleton8"
proof -
  let ?s = "state_of [Handle (author 7 True None)]"
  note d = rel_dispatch [where F = author_factory and s = ?s and ty = "''Author''"]
  have e: "isEntity (heap ?s) (VObj 0)" by (simp add: isEntity_def state_of_def)
  from d [where pk = VNull] have 1: "rel author_factory ?s ''Author'' VNull = (Inr VNull, ?s)"
    by blast
  from d [where pk = VUndefined] have 2: "rel author_factory ?s ''Author'' VUndefined = (Inr VUndefined, ?s)"
    by blast
  from d [where pk = "VObj 0"] e have 3: "rel author_factory ?s ''Author'' (VObj 0) = (Inr (VObj 0), ?s)"
    by blast
  have n: "\<not> (VNum 8 = VNull \<or> VNum 8 = VUndefined \<or> isEntity (heap ?s) (VNum 8))"
    by (simp add: isEntity_def)
  from d [where pk = "VNum 8"] n
  have "rel author_factory ?s ''Author'' (VNum 8) = createNakedFromPK author_factory ?s ''Author'' (VNum 8) None"
    by blast
  moreover have "createNakedFromPK author_factory ?s ''Author'' (VNum 8) None
     = (Inr (VObj 1), (state_of [Handle (author 7 True None), Handle skeleton8])\<lparr>factory_calls := 1\<rparr>)"
    by (simp add: createNakedFromPK_def author_factory_def state_of_def helper_def Let_def
        skeleton8_def author_def author_meta_def add_def)
  ultimately have 4: "rel author_factory ?s ''Author'' (VNum 8)
     = (Inr (VObj 1), (state_of [Handle (author 7 True None), Handle skeleton8])\<lparr>factory_calls := 1\<rparr>)"
    by simp
  have "\<not> h_initialized skeleton8" by (simp add: skeleton8_def author_def)
  with 1 2 3 4 show ?thesis by simp
qed

end
